theory Spec2Isabelle
  imports Complex_Main "HOL-Library.Sublist" "HOL-Library.Multiset" "HOL-Library.AList"
begin

section \<open>JavaScript values used by the application\<close>

text \<open>
  Strings are lists of code units (\<open>string\<close>); a Hanzi entry, a scene name, a file name and
  the Pinyin buffer are all JavaScript strings in the source.

  A numeric slot of a JavaScript object holds a number (finite, an infinity or \<open>NaN\<close>)
  or, after a level has gone through \<open>JSON.stringify\<close> and back, \<open>null\<close>. Finite numbers
  are idealised as rationals: the rounding of doubles and the sign of zero are outside
  this model.
\<close>

datatype jsnum = Num rat | PosInf | NegInf | NaN | Null

text \<open>A number value, and \<open>ToNumber\<close> of a slot: \<open>null\<close> coerces to \<open>0\<close>.\<close>

datatype number = Fin rat | PInf | NInf | NotANumber

fun toNumber :: "jsnum \<Rightarrow> number" where
  "toNumber (Num q) = Fin q"
| "toNumber PosInf = PInf"
| "toNumber NegInf = NInf"
| "toNumber NaN = NotANumber"
| "toNumber Null = Fin 0"

fun ofNumber :: "number \<Rightarrow> jsnum" where
  "ofNumber (Fin q) = Num q"
| "ofNumber PInf = PosInf"
| "ofNumber NInf = NegInf"
| "ofNumber NotANumber = NaN"

definition infinityOf :: "bool \<Rightarrow> number" where
  "infinityOf positive = (if positive then PInf else NInf)"

fun negN :: "number \<Rightarrow> number" where
  "negN (Fin p) = Fin (- p)"
| "negN PInf = NInf"
| "negN NInf = PInf"
| "negN NotANumber = NotANumber"

fun addN :: "number \<Rightarrow> number \<Rightarrow> number" where
  "addN (Fin p) (Fin q) = Fin (p + q)"
| "addN NotANumber _ = NotANumber"
| "addN _ NotANumber = NotANumber"
| "addN PInf NInf = NotANumber"
| "addN NInf PInf = NotANumber"
| "addN PInf _ = PInf"
| "addN _ PInf = PInf"
| "addN NInf _ = NInf"
| "addN _ NInf = NInf"

fun mulN :: "number \<Rightarrow> number \<Rightarrow> number" where
  "mulN (Fin p) (Fin q) = Fin (p * q)"
| "mulN NotANumber _ = NotANumber"
| "mulN _ NotANumber = NotANumber"
| "mulN (Fin p) PInf = (if p = 0 then NotANumber else infinityOf (0 < p))"
| "mulN (Fin p) NInf = (if p = 0 then NotANumber else infinityOf (p < 0))"
| "mulN PInf (Fin q) = (if q = 0 then NotANumber else infinityOf (0 < q))"
| "mulN NInf (Fin q) = (if q = 0 then NotANumber else infinityOf (q < 0))"
| "mulN PInf PInf = PInf"
| "mulN PInf NInf = NInf"
| "mulN NInf PInf = NInf"
| "mulN NInf NInf = PInf"

fun divN :: "number \<Rightarrow> number \<Rightarrow> number" where
  "divN (Fin p) (Fin q) =
     (if q = 0 then (if p = 0 then NotANumber else infinityOf (0 < p)) else Fin (p / q))"
| "divN NotANumber _ = NotANumber"
| "divN _ NotANumber = NotANumber"
| "divN (Fin p) PInf = Fin 0"
| "divN (Fin p) NInf = Fin 0"
| "divN PInf (Fin q) = infinityOf (0 \<le> q)"
| "divN NInf (Fin q) = infinityOf (q < 0)"
| "divN PInf PInf = NotANumber"
| "divN PInf NInf = NotANumber"
| "divN NInf PInf = NotANumber"
| "divN NInf NInf = NotANumber"

definition jsadd :: "jsnum \<Rightarrow> jsnum \<Rightarrow> jsnum" where
  "jsadd a b = ofNumber (addN (toNumber a) (toNumber b))"


definition jsmul :: "jsnum \<Rightarrow> jsnum \<Rightarrow> jsnum" where
  "jsmul a b = ofNumber (mulN (toNumber a) (toNumber b))"

definition jsdiv :: "jsnum \<Rightarrow> jsnum \<Rightarrow> jsnum" where
  "jsdiv a b = ofNumber (divN (toNumber a) (toNumber b))"

definition jsneg :: "jsnum \<Rightarrow> jsnum" where
  "jsneg a = ofNumber (negN (toNumber a))"

text \<open>
  The strict inequality \<open>a !== b\<close> on slots: \<open>NaN\<close> is unequal to everything, itself
  included; otherwise two slots are unequal when they differ.
\<close>

fun strict_neq :: "jsnum \<Rightarrow> jsnum \<Rightarrow> bool" where
  "strict_neq NaN _ = True"
| "strict_neq _ NaN = True"
| "strict_neq a b = (a \<noteq> b)"

subsection \<open>\<open>parseInt\<close> with no radix argument\<close>

definition isWhiteSpace :: "char \<Rightarrow> bool" where
  "isWhiteSpace c = (of_char c \<in> {9, 10, 11, 12, 13, 32, 160 :: nat})"

definition digitValue :: "char \<Rightarrow> nat" where
  "digitValue c =
     (let n = (of_char c :: nat) in
      if 48 \<le> n \<and> n \<le> 57 then n - 48
      else if 97 \<le> n \<and> n \<le> 122 then n - 87
      else if 65 \<le> n \<and> n \<le> 90 then n - 55
      else 36)"

text \<open>The result of \<open>parseInt\<close> is an integer or \<open>NaN\<close> (\<open>None\<close>).\<close>

definition parseInt :: "string \<Rightarrow> int option" where
  "parseInt str =
     (let s1 = dropWhile isWhiteSpace str;
          sign = (case s1 of c # _ \<Rightarrow> if c = CHR ''-'' then (- 1 :: int) else 1 | [] \<Rightarrow> 1);
          s2 = (case s1 of c # r \<Rightarrow> if c = CHR ''-'' \<or> c = CHR ''+'' then r else s1 | [] \<Rightarrow> s1);
          hex = (take 2 s2 = ''0x'' \<or> take 2 s2 = ''0X'');
          radix = (if hex then 16 else 10 :: nat);
          s3 = (if hex then drop 2 s2 else s2);
          z = takeWhile (\<lambda>c. digitValue c < radix) s3
      in if z = [] then None
         else Some (sign * int (foldl (\<lambda>a c. a * radix + digitValue c) 0 z)))"

text \<open>
  The integer that \<open>parseInt\<close> read, as a number: from \<open>2^1024 - 2^970\<close> on it rounds to an
  infinity.
\<close>

definition doubleOverflow :: int where
  "doubleOverflow = 2 ^ 1024 - 2 ^ 970"

definition Number :: "int option \<Rightarrow> jsnum" where
  "Number p =
     (case p of
        None \<Rightarrow> NaN
      | Some i \<Rightarrow>
          if doubleOverflow \<le> i then PosInf
          else if i \<le> - doubleOverflow then NegInf
          else Num (of_int i))"

subsection \<open>Strings\<close>

text \<open>\<open>String.prototype.includes\<close>: an unanchored, case-sensitive search.\<close>

fun str_includes :: "string \<Rightarrow> string \<Rightarrow> bool" where
  "str_includes [] q = (q = [])"
| "str_includes (c # cs) q = (prefix q (c # cs) \<or> str_includes cs q)"

text \<open>\<open>s.replace(a, b)\<close> with single-unit strings replaces the first occurrence only.\<close>

fun replace :: "string \<Rightarrow> char \<Rightarrow> char \<Rightarrow> string" where
  "replace [] a b = []"
| "replace (c # cs) a b = (if c = a then b # cs else c # replace cs a b)"

definition u_umlaut :: char where
  "u_umlaut = CHR 0xFC"

text \<open>\<open>Number.prototype.toString\<close> on a natural number.\<close>

function toString :: "nat \<Rightarrow> string" where
  "toString n =
     (if n < 10 then [''0123456789'' ! n]
      else toString (n div 10) @ [''0123456789'' ! (n mod 10)])"
  by pat_completeness auto
termination
  by (relation "measure id") auto

text \<open>
  POSIX \<open>path.basename\<close> with no extension argument: trailing slashes are dropped, then
  everything up to the last remaining slash.
\<close>

definition basename :: "string \<Rightarrow> string" where
  "basename p =
     rev (takeWhile (\<lambda>c. c \<noteq> CHR ''/'') (dropWhile (\<lambda>c. c = CHR ''/'') (rev p)))"

section \<open>Collaborators outside the class\<close>

text \<open>
  The syllable database (\<open>./database\<close>) is read-only data. Its tables are parameters of
  the model.
\<close>

record info =
  pinyin :: string
  stroke :: string
  english :: string

record PinyinDatabase =
  db_characters :: "string list"
  db_radicals :: "string list"
  dictionary :: "string \<rightharpoonup> info"
  syllables :: "string list"

text \<open>
  Modelled from the spec: \<open>PinyinDatabase.find\<close> is declared in \<open>./database\<close>, which is not
  among the sources. The spec gives \<open>find(prefix) \<rightarrow> bool\<close> as prefix validity: some
  syllable of the database has the argument as a prefix.
\<close>

definition db_find :: "PinyinDatabase \<Rightarrow> string \<Rightarrow> bool" where
  "db_find db p = list_ex (prefix p) (syllables db)"

text \<open>
  Modelled from the spec: \<open>checkUserName\<close> is declared in \<open>./utils\<close>, which is not among
  the sources. The spec has the acting user's identity compared against the one
  configured owner identity; \<open>OWNER_NAME\<close> comes from the environment and may be unset.
\<close>

type_synonym user = string

definition checkUserName :: "user \<Rightarrow> string option \<Rightarrow> bool" where
  "checkUserName u owner = (owner = Some u)"

subsection \<open>Transforms, bounding boxes and actors\<close>

record vec3 =
  vx :: jsnum
  vy :: jsnum
  vz :: jsnum

record quat =
  qx :: jsnum
  qy :: jsnum
  qz :: jsnum
  qw :: jsnum

record transform =
  app_position :: vec3
  local_position :: vec3
  local_scale :: vec3
  local_rotation :: quat

record BoundingBoxDimensions =
  width :: jsnum
  height :: jsnum
  depth :: jsnum
  center :: vec3

datatype material = invisibleMaterial | boundingBoxMaterial

text \<open>
  An actor object of the SDK, as far as the class reads or writes it. Objects stay in
  the heap after the actor is destroyed, as long as a map of the class refers to them.
\<close>

record actor =
  parentId :: "nat option"
  actor_transform :: transform
  appearance_material :: "material option"
  subscribed :: bool
  grabbable :: bool
  clickable :: bool

type_synonym levelData = "(string \<times> transform) list"

record clip =
  time :: jsnum
  stop_after :: jsnum

section \<open>The state of one \<open>Hanzi\<close> session\<close>

record hanzi =
  OWNER_NAME :: "string option"
  pinyinDatabase :: PinyinDatabase
  sprite :: "string \<rightharpoonup> string \<times> string"
  gltf :: "string \<rightharpoonup> nat option \<times> BoundingBoxDimensions"
  menuWidth :: jsnum
  characters :: "string list"
  radicals :: "string list"
  currentScene :: string
  enabledMenus :: "string list"
  pinyinInfoText :: string
  pinyinInfoPanel :: string
  pinyinMenu_highlighted :: bool
  pinyinTone_highlighted :: bool
  pinyinTone_coord_y :: nat
  sounds :: "clip list"
  curPageNum :: int
  radicalPageNum :: "int option"
  hanziPageNum :: "int option"
  commonHanziMenu_cells :: "string list"
  hanziInfoPanel :: string
  numberInput_text :: jsnum
  highlightedActor :: "nat option"
  highlightBoxes :: "(nat \<times> nat) list"
  spawnedHanzi :: "(nat \<times> string) list"
  prefabs :: "string \<rightharpoonup> nat option"
  dimensions :: "string \<rightharpoonup> BoundingBoxDimensions"
  heap :: "nat \<rightharpoonup> actor"
  live :: "nat list"
  next_id :: nat
  files :: "string \<rightharpoonup> levelData"
  webHost :: "(string \<rightharpoonup> levelData) \<Rightarrow> string \<Rightarrow> levelData option"
  prompts :: "(user \<times> string) list"

text \<open>
  \<open>sprite\<close>, \<open>gltf\<close>, \<open>menuWidth\<close>, \<open>files\<close> and \<open>webHost\<close> are the environment: the
  sound-sprite table, what the model server answers for a character (the prefab found in
  the file, if any, and the computed bounding box), the width of the character grid, the
  level files under \<open>./public\<close>, and what a \<open>fetchJSON\<close> of a URL below the base URL gives
  when the files are as given (\<open>None\<close> for a failed request or a body that does not
  parse). \<open>live\<close> lists the actors that exist in the scene; \<open>prompts\<close> records the messages
  shown to users; \<open>sounds\<close> the clips started.
\<close>

definition PINYIN_INFO_PLACE_HOLDER :: string where
  "PINYIN_INFO_PLACE_HOLDER = ''Awaiting Input''"

definition PINYIN_INFO_ERROR_MESSAGE :: string where
  "PINYIN_INFO_ERROR_MESSAGE = ''No Such Syllable''"

definition HANZI_MODEL_SCALE :: jsnum where
  "HANZI_MODEL_SCALE = Num (8 / 10000)"

definition SCALE_STEP :: jsnum where
  "SCALE_STEP = Num (25 / 1000000)"

section \<open>Pinyin composition\<close>

definition playSound :: "string \<Rightarrow> hanzi \<Rightarrow> hanzi" where
  "playSound text s =
     (case sprite s text of
        None \<Rightarrow> s
      | Some (start, dur) \<Rightarrow>
          s\<lparr>sounds := sounds s @
               [\<lparr>time = jsdiv (Number (parseInt start)) (Num 1000),
                 stop_after = Number (parseInt dur)\<rparr>]\<rparr>)"

definition updatePinyinInfoPanel :: "string \<Rightarrow> hanzi \<Rightarrow> hanzi" where
  "updatePinyinInfoPanel text s = s\<lparr>pinyinInfoPanel := text\<rparr>"

text \<open>
  The key that \<open>Enter\<close> looks up in the sprite table: the buffer with its first
  \<open>u\<close>-umlaut written \<open>v\<close>, followed by the tone digit when a tone is highlighted.
\<close>

definition soundKey :: "hanzi \<Rightarrow> string" where
  "soundKey s =
     (let tone = (if pinyinTone_highlighted s
                  then toString (pinyinTone_coord_y s + 1) else [])
      in replace (pinyinInfoText s) u_umlaut (CHR ''v'') @ tone)"

text \<open>The value of the local variable \<open>error\<close> when \<open>putc\<close> reaches its last statement.\<close>

definition putc_error :: "string \<Rightarrow> hanzi \<Rightarrow> bool" where
  "putc_error c s =
     (if c = ''Backspace'' then False
      else if c = ''Clear'' then False
      else if c = ''Enter'' then
        \<not> (pinyinInfoText s \<noteq> [] \<and> pinyinInfoText s \<in> set (syllables (pinyinDatabase s)))
      else \<not> db_find (pinyinDatabase s) (pinyinInfoText s @ c))"

text \<open>The state when \<open>putc\<close> leaves its \<open>switch\<close>.\<close>

definition putc_switch :: "string \<Rightarrow> hanzi \<Rightarrow> hanzi" where
  "putc_switch c s =
     (if c = ''Backspace'' then s\<lparr>pinyinInfoText := butlast (pinyinInfoText s)\<rparr>
      else if c = ''Clear'' then s\<lparr>pinyinInfoText := [], pinyinMenu_highlighted := False\<rparr>
      else if c = ''Enter'' then
        (let s1 =
           (if pinyinInfoText s \<noteq> [] \<and> pinyinInfoText s \<in> set (syllables (pinyinDatabase s))
            then
              playSound (soundKey s) s
            else s)
         in s1\<lparr>pinyinInfoText := [], pinyinMenu_highlighted := False\<rparr>)
      else
        (let s1 = s\<lparr>pinyinInfoText := pinyinInfoText s @ c\<rparr>
         in if \<not> db_find (pinyinDatabase s1) (pinyinInfoText s1)
            then s1\<lparr>pinyinInfoText := [], pinyinMenu_highlighted := False\<rparr>
            else s1))"

definition putc :: "string \<Rightarrow> hanzi \<Rightarrow> hanzi" where
  "putc c s =
     (let s1 = putc_switch c s
      in updatePinyinInfoPanel
           (if pinyinInfoText s1 \<noteq> [] then pinyinInfoText s1
            else if putc_error c s then PINYIN_INFO_ERROR_MESSAGE
            else PINYIN_INFO_PLACE_HOLDER) s1)"

text \<open>Feeding a sequence of keys to \<open>putc\<close>, one at a time.\<close>

fun putcs :: "string list \<Rightarrow> hanzi \<Rightarrow> hanzi" where
  "putcs [] s = s"
| "putcs (c # cs) s = putcs cs (putc c s)"

section \<open>Scenes\<close>

definition scenes :: "(string \<times> string list) list" where
  "scenes =
     [(''main_menu'', [''mainMenu'']),
      (''pinyin_menu'', [''pinyinMenu'', ''pinyinMenuControlStrip'', ''pinyinHead'',
                         ''pinyinTone'', ''pinyinInfoPanel'']),
      (''phonetics_table'', [''phoneticsTable'']),
      (''radical_menu'', [''commonHanziMenu'', ''hanziInfoPanel'',
                          ''commonHanziMenuControlStrip'', ''numberInput'']),
      (''common_hanzi_menu'', [''commonHanziMenu'', ''hanziInfoPanel'',
                               ''commonHanziMenuControlStrip'', ''numberInput''])]"

definition switchScene :: "string \<Rightarrow> hanzi \<Rightarrow> hanzi" where
  "switchScene scene0 s =
     (if currentScene s = scene0 then s
      else
        (let scene = (if currentScene s = [] \<and> scene0 \<notin> set (map fst scenes)
                      then ''main_menu'' else scene0);
             disabled = concat (map snd (filter (\<lambda>e. fst e \<noteq> scene) scenes));
             tv = (case filter (\<lambda>e. fst e = scene \<and> snd e \<noteq> []) scenes of
                     [] \<Rightarrow> []
                   | e # es \<Rightarrow> snd (last (e # es)))
         in s\<lparr>currentScene := scene,
              enabledMenus :=
                remdups (filter (\<lambda>m. m \<notin> set disabled) (enabledMenus s) @ tv)\<rparr>))"

definition home_onClick :: "user \<Rightarrow> hanzi \<Rightarrow> hanzi" where
  "home_onClick u s =
     (if checkUserName u (OWNER_NAME s) then switchScene ''main_menu'' s else s)"

section \<open>The character grid and its two datasets\<close>

definition getCharacters :: "hanzi \<Rightarrow> string list" where
  "getCharacters s = (if currentScene s = ''radical_menu'' then radicals s else characters s)"

text \<open>\<open>commonHanziMenu.row * commonHanziMenu.col\<close>, fixed at construction to 8 by 8.\<close>

definition pageSize :: nat where
  "pageSize = 8 * 8"

text \<open>\<open>Array.prototype.slice(a, b)\<close>: a negative index counts from the end.\<close>

definition slice :: "'a list \<Rightarrow> int \<Rightarrow> int \<Rightarrow> 'a list" where
  "slice xs a b =
     (let n = int (length xs);
          k = (if a < 0 then max (n + a) 0 else min a n);
          e = (if b < 0 then max (n + b) 0 else min b n)
      in take (nat (e - k)) (drop (nat k) xs))"

definition getCommonHanziPageData :: "hanzi \<Rightarrow> string list" where
  "getCommonHanziPageData s =
     slice (getCharacters s) (int pageSize * (curPageNum s - 1)) (int pageSize * curPageNum s)"

text \<open>
  Modelled from the spec: the page cursor lives in \<open>GridMenu\<close> (\<open>./GUI/gridMenu\<close>), which is
  not among the sources. The spec gives \<open>setPageNum\<close>, \<open>incrementPageNum\<close> and
  \<open>decrementPageNum\<close> as bounded page navigation that clamps the page into
  \<open>[1, ceil(len / pageSize)]\<close>, has a non-numeric page leave the cursor unchanged, and has
  \<open>resetPageNum\<close> go back to page 1. \<open>decrementPageNum\<close> is called without a length.
\<close>

definition totalPages :: "nat \<Rightarrow> int" where
  "totalPages len = int ((len + pageSize - 1) div pageSize)"

definition setPageNum :: "int option \<Rightarrow> nat \<Rightarrow> hanzi \<Rightarrow> hanzi" where
  "setPageNum p len s =
     (case p of
        None \<Rightarrow> s
      | Some n \<Rightarrow> s\<lparr>curPageNum := max 1 (min n (totalPages len))\<rparr>)"

definition incrementPageNum :: "nat \<Rightarrow> hanzi \<Rightarrow> hanzi" where
  "incrementPageNum len s = setPageNum (Some (curPageNum s + 1)) len s"

definition decrementPageNum :: "hanzi \<Rightarrow> hanzi" where
  "decrementPageNum s = s\<lparr>curPageNum := max 1 (curPageNum s - 1)\<rparr>"

definition resetPageNum :: "hanzi \<Rightarrow> hanzi" where
  "resetPageNum s = s\<lparr>curPageNum := 1\<rparr>"

text \<open>
  \<open>updateCommonHanziMenu\<close> hands the page's entries to the grid; the thumbnails it loads
  for them are rendering only.
\<close>

definition updateCommonHanziMenu :: "string list \<Rightarrow> hanzi \<Rightarrow> hanzi" where
  "updateCommonHanziMenu pageData s = s\<lparr>commonHanziMenu_cells := pageData\<rparr>"

definition refreshCommonHanziMenu :: "hanzi \<Rightarrow> hanzi" where
  "refreshCommonHanziMenu s = updateCommonHanziMenu (getCommonHanziPageData s) s"

text \<open>The main menu's click handler; the row is \<open>coord.x\<close>.\<close>

definition mainMenu_behavior :: "nat \<Rightarrow> hanzi \<Rightarrow> hanzi" where
  "mainMenu_behavior row s =
     (if currentScene s \<noteq> ''main_menu'' then s
      else if row = 0 then switchScene ''pinyin_menu'' s
      else if row = 1 then switchScene ''phonetics_table'' s
      else if row = 2 then
        (let s1 = switchScene ''radical_menu'' s;
             s2 = s1\<lparr>hanziPageNum := Some (curPageNum s1)\<rparr>;
             s3 = (case radicalPageNum s2 of
                     None \<Rightarrow> s2
                   | Some p \<Rightarrow> setPageNum (Some p) (length (getCharacters s2)) s2)
         in refreshCommonHanziMenu s3)
      else if row = 3 then
        (let s1 = switchScene ''common_hanzi_menu'' s;
             s2 = s1\<lparr>radicalPageNum := Some (curPageNum s1)\<rparr>;
             s3 = (case hanziPageNum s2 of
                     None \<Rightarrow> s2
                   | Some p \<Rightarrow> setPageNum (Some p) (length (getCharacters s2)) s2)
         in refreshCommonHanziMenu s3)
      else s)"

text \<open>
  \<open>searchHanzi\<close>. The filter callback reads \<open>dictionary[c].pinyin\<close>, which throws when the
  dictionary has no entry for \<open>c\<close>: the result is then \<open>None\<close> and nothing was assigned.
\<close>

fun filterPinyin :: "PinyinDatabase \<Rightarrow> string \<Rightarrow> string list \<Rightarrow> string list option" where
  "filterPinyin db q [] = Some []"
| "filterPinyin db q (c # cs) =
     (case dictionary db c of
        None \<Rightarrow> None
      | Some i \<Rightarrow>
          (case filterPinyin db q cs of
             None \<Rightarrow> None
           | Some r \<Rightarrow> Some (if str_includes (pinyin i) q then c # r else r)))"

definition searchHanzi :: "string \<Rightarrow> hanzi \<Rightarrow> hanzi option" where
  "searchHanzi search s =
     (if currentScene s = ''common_hanzi_menu'' then
        (if search = [] then Some (s\<lparr>characters := db_characters (pinyinDatabase s)\<rparr>)
         else map_option (\<lambda>r. s\<lparr>characters := r\<rparr>)
                (filterPinyin (pinyinDatabase s) search (db_characters (pinyinDatabase s))))
      else
        (if search = [] then Some (s\<lparr>radicals := db_radicals (pinyinDatabase s)\<rparr>)
         else map_option (\<lambda>r. s\<lparr>radicals := r\<rparr>)
                (filterPinyin (pinyinDatabase s) search (db_radicals (pinyinDatabase s)))))"

section \<open>Spawned entities\<close>

text \<open>
  \<open>highlightBoxes\<close> (visual model to placement box) and \<open>spawnedHanzi\<close> (placement box to
  character) are JavaScript \<open>Map\<close>s, which iterate in insertion order: association
  lists, with \<open>map_of\<close> for \<open>get\<close>, \<open>AList.update\<close> for \<open>set\<close> and \<open>AList.delete\<close> for
  \<open>delete\<close>.
\<close>

definition update_actor :: "nat \<Rightarrow> (actor \<Rightarrow> actor) \<Rightarrow> hanzi \<Rightarrow> hanzi" where
  "update_actor i f s = s\<lparr>heap := (heap s)(i := map_option f (heap s i))\<rparr>"

text \<open>
  \<open>Actor.destroy\<close>: the actor and its children leave the scene. Models have one level of
  children here (the visual model under its box). A second call finds nothing to remove.
\<close>

definition destroy :: "nat \<Rightarrow> hanzi \<Rightarrow> hanzi" where
  "destroy i s =
     s\<lparr>live := filter (\<lambda>j. j \<noteq> i \<and>
                       (case heap s j of None \<Rightarrow> True | Some a \<Rightarrow> parentId a \<noteq> Some i))
                  (live s)\<rparr>"

definition zero3 :: vec3 where
  "zero3 = \<lparr>vx = Num 0, vy = Num 0, vz = Num 0\<rparr>"

definition one3 :: vec3 where
  "one3 = \<lparr>vx = Num 1, vy = Num 1, vz = Num 1\<rparr>"

definition identityQ :: quat where
  "identityQ = \<lparr>qx = Num 0, qy = Num 0, qz = Num 0, qw = Num 1\<rparr>"

text \<open>The transform a new SDK actor starts from, before the given fields are copied in.\<close>

definition defaultTransform :: transform where
  "defaultTransform =
     \<lparr>app_position = zero3, local_position = zero3, local_scale = one3,
      local_rotation = identityQ\<rparr>"

definition HANZI_MODEL_ROTATION :: quat where
  "HANZI_MODEL_ROTATION = identityQ"

text \<open>
  \<open>loadGltf\<close>: the model file is fetched once per character. \<open>gltf s char = None\<close> stands for a
  failed fetch or a failed load; in both cases \<open>spawnItem\<close> ends with an exception before
  it changes anything, which is the result \<open>None\<close> here.
\<close>

definition loadGltf :: "string \<Rightarrow> hanzi \<Rightarrow> hanzi option" where
  "loadGltf char s =
     (if prefabs s char \<noteq> None then Some s
      else
        (case gltf s char of
           None \<Rightarrow> None
         | Some (prefab, bbox) \<Rightarrow>
             Some (s\<lparr>prefabs := (prefabs s)(char \<mapsto> prefab),
                     dimensions := (dimensions s)(char \<mapsto> bbox)\<rparr>)))"

definition defaultSpawnTransform :: "jsnum \<Rightarrow> BoundingBoxDimensions \<Rightarrow> transform" where
  "defaultSpawnTransform w bbox =
     (let px = jsadd (jsadd w (Num (5 / 100)))
                 (jsdiv (jsmul (width bbox) HANZI_MODEL_SCALE) (Num 2));
          py = jsdiv (jsmul (jsneg (height bbox)) HANZI_MODEL_SCALE) (Num 2)
      in \<lparr>app_position = \<lparr>vx = px, vy = py, vz = Num 0\<rparr>,
          local_position = \<lparr>vx = px, vy = py, vz = Num 0\<rparr>,
          local_scale = \<lparr>vx = HANZI_MODEL_SCALE, vy = HANZI_MODEL_SCALE,
                         vz = HANZI_MODEL_SCALE\<rparr>,
          local_rotation = HANZI_MODEL_ROTATION\<rparr>)"

text \<open>
  \<open>spawnItem\<close>. The exceptions of the source are the early exits here: an undefined
  character, a model that could not be loaded, missing dimensions (nothing was created),
  and a model file without a prefab (the box exists already, untracked).
\<close>

definition spawnItem :: "string option \<Rightarrow> transform option \<Rightarrow> bool \<Rightarrow> hanzi \<Rightarrow> hanzi" where
  "spawnItem char0 transform0 editor s =
     (case char0 of
        None \<Rightarrow> s
      | Some char \<Rightarrow>
          (case loadGltf char s of
             None \<Rightarrow> s
           | Some s1 \<Rightarrow>
               (case dimensions s1 char of
                  None \<Rightarrow> s1
                | Some bbox \<Rightarrow>
                    (let tr = (case transform0 of
                                 Some t \<Rightarrow> t
                               | None \<Rightarrow> defaultSpawnTransform (menuWidth s1) bbox);
                         box = next_id s1;
                         s2 = s1\<lparr>heap := (heap s1)(box \<mapsto>
                                    \<lparr>parentId = None, actor_transform = tr,
                                     appearance_material = Some invisibleMaterial,
                                     subscribed = editor, grabbable = editor,
                                     clickable = False\<rparr>),
                                 live := live s1 @ [box],
                                 next_id := box + 1\<rparr>
                     in (case prefabs s2 char of
                           Some (Some prefab) \<Rightarrow>
                             (let act = next_id s2;
                                  s3 = s2\<lparr>heap := (heap s2)(act \<mapsto>
                                             \<lparr>parentId = Some box,
                                              actor_transform = defaultTransform
                                                \<lparr>local_position :=
                                                   \<lparr>vx = vx (center bbox),
                                                    vy = jsneg (vz (center bbox)),
                                                    vz = Num 0\<rparr>,
                                                 local_scale := one3\<rparr>,
                                              appearance_material = None,
                                              subscribed = False, grabbable = editor,
                                              clickable = False\<rparr>),
                                          live := live s2 @ [act],
                                          next_id := act + 1,
                                          highlightBoxes :=
                                            AList.update act box (highlightBoxes s2),
                                          spawnedHanzi :=
                                            AList.update box char (spawnedHanzi s2)\<rparr>
                              in if editor
                                 then update_actor box (\<lambda>a. a\<lparr>clickable := True\<rparr>) s3
                                 else s3)
                         | _ \<Rightarrow> s2)))))"

text \<open>
  \<open>updateHanziInfoPanel\<close>: \<open>None\<close> is the exception thrown when the dictionary has no entry
  for the character. The panel is given the description; breaking it into lines and the
  thumbnail are rendering only.
\<close>

definition updateHanziInfoPanel :: "string option \<Rightarrow> hanzi \<Rightarrow> hanzi option" where
  "updateHanziInfoPanel char0 s =
     (case char0 of
        None \<Rightarrow> Some s
      | Some char \<Rightarrow>
          (case dictionary (pinyinDatabase s) char of
             None \<Rightarrow> None
           | Some i \<Rightarrow>
               Some (s\<lparr>hanziInfoPanel :=
                         ''PinYin: '' @ pinyin i @ [CHR 0x0A] @ ''Strokes: '' @ stroke i @
                         [CHR 0x0A] @ ''English: '' @ english i\<rparr>)))"

text \<open>
  The click handler that \<open>spawnItem\<close> attaches to an editable box; \<open>act\<close> and \<open>box\<close> are the
  two actors the closure captured.
\<close>

definition box_onClick :: "nat \<Rightarrow> nat \<Rightarrow> user \<Rightarrow> hanzi \<Rightarrow> hanzi" where
  "box_onClick act box u s =
     (if checkUserName u (OWNER_NAME s) then
        (if highlightedActor s \<noteq> Some act then
           (let prev = (case highlightedActor s of
                          None \<Rightarrow> Some s
                        | Some h \<Rightarrow>
                            (case map_of (highlightBoxes s) h of
                               None \<Rightarrow> None
                             | Some hb \<Rightarrow>
                                 Some (update_actor hb
                                   (\<lambda>a. a\<lparr>appearance_material := Some invisibleMaterial\<rparr>) s)))
            in case prev of
                 None \<Rightarrow> s
               | Some s1 \<Rightarrow>
                   (let s2 = update_actor box
                               (\<lambda>a. a\<lparr>appearance_material := Some boundingBoxMaterial\<rparr>) s1;
                        s3 = s2\<lparr>highlightedActor := Some act\<rparr>
                    in case updateHanziInfoPanel (map_of (spawnedHanzi s3) box) s3 of
                         None \<Rightarrow> s3
                       | Some s4 \<Rightarrow> s4))
         else
           (update_actor box (\<lambda>a. a\<lparr>appearance_material := Some invisibleMaterial\<rparr>) s)
             \<lparr>highlightedActor := None\<rparr>)
      else s)"

text \<open>
  \<open>deleteItem\<close>. With no box recorded for the actor, \<open>box.unsubscribe\<close> throws before
  anything is changed: the result \<open>None\<close>.
\<close>

definition deleteItem :: "nat \<Rightarrow> hanzi \<Rightarrow> hanzi option" where
  "deleteItem act s =
     (case map_of (highlightBoxes s) act of
        None \<Rightarrow> None
      | Some box \<Rightarrow>
          (let s1 = update_actor box (\<lambda>a. a\<lparr>subscribed := False\<rparr>) s;
               s2 = s1\<lparr>spawnedHanzi := AList.delete box (spawnedHanzi s1)\<rparr>;
               s3 = destroy act s2
           in Some (destroy box s3)))"

text \<open>\<open>clearLevel\<close>: \<open>forEach\<close> over the keys of \<open>highlightBoxes\<close>; an exception ends the loop.\<close>

fun clearLoop :: "nat list \<Rightarrow> hanzi \<Rightarrow> hanzi" where
  "clearLoop [] s = s"
| "clearLoop (k # ks) s =
     (case deleteItem k s of None \<Rightarrow> s | Some s1 \<Rightarrow> clearLoop ks s1)"

definition clearLevel :: "hanzi \<Rightarrow> hanzi" where
  "clearLevel s = clearLoop (map fst (highlightBoxes s)) s"

subsection \<open>Levels\<close>

definition prompt :: "user \<Rightarrow> string \<Rightarrow> hanzi \<Rightarrow> hanzi" where
  "prompt u msg s = s\<lparr>prompts := prompts s @ [(u, msg)]\<rparr>"

text \<open>
  \<open>JSON.stringify\<close> writes \<open>NaN\<close> and the infinities as \<open>null\<close>; a finite number comes back
  from \<open>JSON.parse\<close> as it was. A level file is kept as the value that parsing it gives.
\<close>

fun jsonNum :: "jsnum \<Rightarrow> jsnum" where
  "jsonNum (Num q) = Num q"
| "jsonNum PosInf = Null"
| "jsonNum NegInf = Null"
| "jsonNum NaN = Null"
| "jsonNum Null = Null"

definition jsonVec3 :: "vec3 \<Rightarrow> vec3" where
  "jsonVec3 v = \<lparr>vx = jsonNum (vx v), vy = jsonNum (vy v), vz = jsonNum (vz v)\<rparr>"

definition jsonQuat :: "quat \<Rightarrow> quat" where
  "jsonQuat q =
     \<lparr>qx = jsonNum (qx q), qy = jsonNum (qy q), qz = jsonNum (qz q), qw = jsonNum (qw q)\<rparr>"

definition jsonTransform :: "transform \<Rightarrow> transform" where
  "jsonTransform t =
     \<lparr>app_position = jsonVec3 (app_position t),
      local_position = jsonVec3 (local_position t),
      local_scale = jsonVec3 (local_scale t),
      local_rotation = jsonQuat (local_rotation t)\<rparr>"

definition jsonLevel :: "levelData \<Rightarrow> levelData" where
  "jsonLevel level = map (\<lambda>(c, t). (c, jsonTransform t)) level"

text \<open>The level that \<open>saveLevel\<close> collects: every tracked box with its current transform.\<close>

definition levelOf :: "(nat \<rightharpoonup> actor) \<Rightarrow> (nat \<times> string) list \<Rightarrow> levelData" where
  "levelOf h sp =
     concat (map (\<lambda>(k, v). case h k of
                              None \<Rightarrow> []
                            | Some a \<Rightarrow> [(v, actor_transform a)])
                 sp)"

definition currentLevel :: "hanzi \<Rightarrow> levelData" where
  "currentLevel s = levelOf (heap s) (spawnedHanzi s)"

text \<open>\<open>writeLevel\<close>; \<open>write_ok\<close> is whether \<open>fs.writeFile\<close> reported no error.\<close>

definition writeLevel :: "string \<Rightarrow> levelData \<Rightarrow> user \<Rightarrow> bool \<Rightarrow> hanzi \<Rightarrow> hanzi" where
  "writeLevel filePath level u write_ok s =
     (if write_ok
      then prompt u ''Saved'' (s\<lparr>files := (files s)(filePath \<mapsto> jsonLevel level)\<rparr>)
      else prompt u ''Failed'' s)"

definition saveLevel_path :: "string \<Rightarrow> string" where
  "saveLevel_path filename = ''./public/levels/'' @ basename filename @ ''.json''"

text \<open>
  \<open>saveLevel\<close>; \<open>overwrite\<close> is the user's answer to the overwrite question, asked only when
  the file exists.
\<close>

definition saveLevel :: "string \<Rightarrow> user \<Rightarrow> bool \<Rightarrow> bool \<Rightarrow> hanzi \<Rightarrow> hanzi" where
  "saveLevel filename u overwrite write_ok s =
     (let level = currentLevel s;
          filePath = saveLevel_path filename
      in if files s filePath \<noteq> None then
           (let s1 = prompt u ''File already exists, overwrite?'' s
            in if overwrite then writeLevel filePath level u write_ok s1 else s1)
         else writeLevel filePath level u write_ok s)"

definition loadLevel_path :: "string \<Rightarrow> string" where
  "loadLevel_path filename = ''./public/'' @ ''levels/'' @ filename @ ''.json''"

text \<open>The URL that \<open>loadLevel\<close> fetches, relative to the base URL.\<close>

definition loadLevel_url :: "string \<Rightarrow> string" where
  "loadLevel_url filename = ''levels/'' @ filename @ ''.json''"

text \<open>
  \<open>loadLevel\<close>. The existence of the file is checked under \<open>./public\<close>; its content is
  fetched from the web host by URL, and a failed fetch ends \<open>loadLevel\<close> with an exception
  before anything is spawned. The spawns are started in the order of the file and none is
  awaited: when every character of the file is cached, each runs to its end in that
  order; otherwise they end in the order the model server answers, and the model takes
  the order of the file.
\<close>

definition loadLevel :: "string \<Rightarrow> user \<Rightarrow> bool \<Rightarrow> hanzi \<Rightarrow> hanzi" where
  "loadLevel filename u editor s =
     (if files s (loadLevel_path filename) = None then prompt u ''No such file'' s
      else
        (case webHost s (files s) (loadLevel_url filename) of
           None \<Rightarrow> s
         | Some level \<Rightarrow>
             foldl (\<lambda>s1 d. spawnItem (Some (fst d)) (Some (snd d)) editor s1) s level))"

text \<open>
  A web host that serves \<open>./public\<close> as it is: the query and the fragment of the URL are
  cut off and the rest names the file.
\<close>

definition staticHost :: "(string \<rightharpoonup> levelData) \<Rightarrow> string \<Rightarrow> levelData option" where
  "staticHost fs url =
     fs (''./public/'' @ takeWhile (\<lambda>c. c \<noteq> CHR ''?'' \<and> c \<noteq> CHR ''#'') url)"

section \<open>The control strip and the number input\<close>

text \<open>
  The buttons of the control strip. A button that opens a dialog carries the dialog's
  answer: \<open>None\<close> when the dialog was not submitted, the text otherwise. \<open>Spawn\<close> carries
  the index the grid reports for the highlighted cell; \<open>Save\<close> the answer to the overwrite
  question and whether the write succeeded.
\<close>

datatype strip_event =
    Search "string option"
  | Goto "string option"
  | Prev
  | Next
  | Spawn nat
  | Delete
  | Save "string option" bool bool
  | Load "string option"
  | Clear bool

definition inHanziScene :: "hanzi \<Rightarrow> bool" where
  "inHanziScene s =
     (\<not> (currentScene s \<noteq> ''common_hanzi_menu'' \<and> currentScene s \<noteq> ''radical_menu''))"

text \<open>
  The continuations of the five dialogs. Each runs when the answer arrives, in the state
  it finds then, and none looks at the current scene.
\<close>

definition search_then :: "string option \<Rightarrow> hanzi \<Rightarrow> hanzi" where
  "search_then r s =
     (case r of
        None \<Rightarrow> s
      | Some text \<Rightarrow>
          (case searchHanzi text s of
             None \<Rightarrow> s
           | Some s1 \<Rightarrow> refreshCommonHanziMenu (resetPageNum s1)))"

definition goto_then :: "string option \<Rightarrow> hanzi \<Rightarrow> hanzi" where
  "goto_then r s =
     (case r of
        None \<Rightarrow> s
      | Some text \<Rightarrow>
          (let p = parseInt text
           in if strict_neq (Number p) NaN
              then refreshCommonHanziMenu (setPageNum p (length (getCharacters s)) s)
              else s))"

definition save_then :: "string option \<Rightarrow> user \<Rightarrow> bool \<Rightarrow> bool \<Rightarrow> hanzi \<Rightarrow> hanzi" where
  "save_then r u overwrite write_ok s =
     (case r of
        None \<Rightarrow> s
      | Some filename \<Rightarrow> saveLevel filename u overwrite write_ok s)"

definition load_then :: "string option \<Rightarrow> user \<Rightarrow> hanzi \<Rightarrow> hanzi" where
  "load_then r u s =
     (case r of
        None \<Rightarrow> s
      | Some filename \<Rightarrow> loadLevel filename u True s)"

definition clear_then :: "bool \<Rightarrow> hanzi \<Rightarrow> hanzi" where
  "clear_then submitted s = (if submitted then clearLevel s else s)"

text \<open>
  What the handler does once the scene guard has passed. For a button that opens a
  dialog, this is the dialog followed at once by its continuation: the answer arrives
  before any other event.
\<close>

fun strip_action :: "strip_event \<Rightarrow> user \<Rightarrow> hanzi \<Rightarrow> hanzi" where
  "strip_action (Search r) u s = search_then r (prompt u ''Search Hanzi'' s)"
| "strip_action (Goto r) u s = goto_then r (prompt u ''Goto page'' s)"
| "strip_action Prev u s = refreshCommonHanziMenu (decrementPageNum s)"
| "strip_action Next u s =
     refreshCommonHanziMenu (incrementPageNum (length (getCharacters s)) s)"
| "strip_action (Spawn index) u s =
     spawnItem (if index < length (getCharacters s) then Some (getCharacters s ! index)
                else None) None True s"
| "strip_action Delete u s =
     (case highlightedActor s of
        None \<Rightarrow> s
      | Some act \<Rightarrow> (case deleteItem act s of None \<Rightarrow> s | Some s1 \<Rightarrow> s1))"
| "strip_action (Save r overwrite write_ok) u s =
     save_then r u overwrite write_ok (prompt u ''Save as:'' s)"
| "strip_action (Load r) u s = load_then r u (prompt u ''Load from:'' s)"
| "strip_action (Clear submitted) u s = clear_then submitted (prompt u ''Clear level?'' s)"

definition commonHanziMenuControlStrip_behavior :: "strip_event \<Rightarrow> user \<Rightarrow> hanzi \<Rightarrow> hanzi"
  where
  "commonHanziMenuControlStrip_behavior ev u s =
     (if \<not> inHanziScene s then s else strip_action ev u s)"


text \<open>
  The three handlers of the number input write the scale of the selected entity's box.
  \<open>withSelectedBox\<close> is their common part: with nothing recorded for the selected actor
  the handler throws before it writes.
\<close>

definition withSelectedBox :: "(vec3 \<Rightarrow> vec3) \<Rightarrow> hanzi \<Rightarrow> hanzi" where
  "withSelectedBox f s =
     (case highlightedActor s of
        None \<Rightarrow> s
      | Some h \<Rightarrow>
          (case map_of (highlightBoxes s) h of
             None \<Rightarrow> s
           | Some box \<Rightarrow>
               (case heap s box of
                  None \<Rightarrow> s
                | Some a \<Rightarrow>
                    (let sc = f (local_scale (actor_transform a))
                     in (update_actor box
                           (\<lambda>a. a\<lparr>actor_transform := (actor_transform a)\<lparr>local_scale := sc\<rparr>\<rparr>) s)
                          \<lparr>numberInput_text := jsdiv (vx sc) HANZI_MODEL_SCALE\<rparr>))))"

definition numberInput_onIncrease :: "hanzi \<Rightarrow> hanzi" where
  "numberInput_onIncrease s =
     (if \<not> inHanziScene s then s
      else withSelectedBox
             (\<lambda>sc. \<lparr>vx = jsadd (vx sc) SCALE_STEP, vy = jsadd (vy sc) SCALE_STEP,
                    vz = jsadd (vz sc) SCALE_STEP\<rparr>) s)"


definition numberInput_onEdit :: "string option \<Rightarrow> user \<Rightarrow> hanzi \<Rightarrow> hanzi" where
  "numberInput_onEdit r u s =
     (if \<not> inHanziScene s then s
      else if highlightedActor s = None then s
      else
        (let s0 = prompt u ''Change scale to'' s
         in case r of
              None \<Rightarrow> s0
            | Some text \<Rightarrow>
                (let int = jsmul (Number (parseInt text)) HANZI_MODEL_SCALE
                 in if strict_neq int NaN
                    then withSelectedBox (\<lambda>sc. \<lparr>vx = int, vy = int, vz = int\<rparr>) s0
                    else s0)))"

section \<open>Start of a session\<close>

text \<open>
  The state after the constructor and \<open>init\<close>, for given environment: owner name, database,
  sprite table, model server, grid width, level files and web host. The grid starts on
  page 1 (the cursor is 1-based), every widget starts enabled, and the number input shows
  no number.
\<close>

definition init ::
  "string option \<Rightarrow> PinyinDatabase \<Rightarrow> (string \<rightharpoonup> string \<times> string) \<Rightarrow>
   (string \<rightharpoonup> nat option \<times> BoundingBoxDimensions) \<Rightarrow> jsnum \<Rightarrow> (string \<rightharpoonup> levelData) \<Rightarrow>
   ((string \<rightharpoonup> levelData) \<Rightarrow> string \<Rightarrow> levelData option) \<Rightarrow> hanzi"
  where
  "init owner db sp models w fs host =
     switchScene ''main_menu''
       (refreshCommonHanziMenu
          \<lparr>OWNER_NAME = owner, pinyinDatabase = db, sprite = sp, gltf = models,
           menuWidth = w, characters = db_characters db, radicals = db_radicals db,
           currentScene = [], enabledMenus = remdups (concat (map snd scenes)),
           pinyinInfoText = [], pinyinInfoPanel = PINYIN_INFO_PLACE_HOLDER,
           pinyinMenu_highlighted = False, pinyinTone_highlighted = False,
           pinyinTone_coord_y = 0, sounds = [], curPageNum = 1,
           radicalPageNum = None, hanziPageNum = None, commonHanziMenu_cells = [],
           hanziInfoPanel = [], numberInput_text = Null, highlightedActor = None,
           highlightBoxes = [], spawnedHanzi = [], prefabs = Map.empty,
           dimensions = Map.empty, heap = Map.empty, live = [], next_id = 0,
           files = fs, webHost = host, prompts = []\<rparr>)"

section \<open>Predicates of the specification and example sessions\<close>

text \<open>The buffer is empty or a prefix of some syllable of the database.\<close>

definition buffer_ok :: "hanzi \<Rightarrow> bool" where
  "buffer_ok s =
     (pinyinInfoText s = [] \<or>
      (\<exists>syl \<in> set (syllables (pinyinDatabase s)). prefix (pinyinInfoText s) syl))"

text \<open>
  A small database, and a session started on it: the owner is \<open>owner\<close>, the sprite table
  has first-tone clips only, the model server knows the character \<open>A\<close>.
\<close>

definition demo_db :: PinyinDatabase where
  "demo_db =
     \<lparr>db_characters = [''A'', ''B'', ''C''], db_radicals = [''R'', ''S''],
      dictionary = map_of
        [(''A'', \<lparr>pinyin = ''zhong'', stroke = ''4'', english = ''middle''\<rparr>),
         (''B'', \<lparr>pinyin = ''a'', stroke = ''3'', english = ''ah''\<rparr>),
         (''C'', \<lparr>pinyin = ''zhi'', stroke = ''5'', english = ''only''\<rparr>),
         (''R'', \<lparr>pinyin = ''shui'', stroke = ''3'', english = ''water''\<rparr>),
         (''S'', \<lparr>pinyin = ''ma'', stroke = ''3'', english = ''horse''\<rparr>)],
      syllables = [''a'', ''zhi'', ''zhong'', ''ma'', ''shui'']\<rparr>"

definition demo_bbox :: BoundingBoxDimensions where
  "demo_bbox = \<lparr>width = Num 1000, height = Num 1000, depth = Num 100,
                center = \<lparr>vx = Num 500, vy = Num 50, vz = Num 500\<rparr>\<rparr>"

definition demo :: hanzi where
  "demo =
     init (Some ''owner'') demo_db
       (map_of [(''a1'', (''0'', ''450'')), (''zhong1'', (''450'', ''500''))])
       (map_of [(''A'', (Some 7, demo_bbox))]) (Num 2) Map.empty staticHost"

text \<open>
  The two datasets that share the character grid, with the scene that shows each, its
  working list, its source list in the database and its remembered page.
\<close>

datatype dataset = RadicalSet | CharacterSet

fun other :: "dataset \<Rightarrow> dataset" where
  "other RadicalSet = CharacterSet"
| "other CharacterSet = RadicalSet"

fun sceneOf :: "dataset \<Rightarrow> string" where
  "sceneOf RadicalSet = ''radical_menu''"
| "sceneOf CharacterSet = ''common_hanzi_menu''"

fun mainMenuRow :: "dataset \<Rightarrow> nat" where
  "mainMenuRow RadicalSet = 2"
| "mainMenuRow CharacterSet = 3"

fun workingList :: "dataset \<Rightarrow> hanzi \<Rightarrow> string list" where
  "workingList RadicalSet s = radicals s"
| "workingList CharacterSet s = characters s"


fun remembered :: "dataset \<Rightarrow> hanzi \<Rightarrow> int option" where
  "remembered RadicalSet s = radicalPageNum s"
| "remembered CharacterSet s = hanziPageNum s"


text \<open>The example session after a click on \<open>Common\<close> in the main menu.\<close>

definition demo_common :: hanzi where
  "demo_common = mainMenu_behavior 3 demo"

text \<open>A run of control-strip clicks, each with the user who clicked.\<close>

fun strip_run :: "(strip_event \<times> user) list \<Rightarrow> hanzi \<Rightarrow> hanzi" where
  "strip_run [] s = s"
| "strip_run (e # es) s =
     strip_run es (commonHanziMenuControlStrip_behavior (fst e) (snd e) s)"

text \<open>
  Leaving the dataset on show for the main menu (the home button, clicked by \<open>u\<close>) and
  entering dataset \<open>d\<close> from there.
\<close>

definition switchTo :: "dataset \<Rightarrow> user \<Rightarrow> hanzi \<Rightarrow> hanzi" where
  "switchTo d u s = mainMenu_behavior (mainMenuRow d) (home_onClick u s)"

text \<open>The part of the state that scene switching and paging read.\<close>

definition pagerView ::
  "hanzi \<Rightarrow> string \<times> string list \<times> string list \<times> int option \<times> int option \<times> int \<times>
            string option \<times> PinyinDatabase" where
  "pagerView s =
     (currentScene s, characters s, radicals s, radicalPageNum s, hanziPageNum s,
      curPageNum s, OWNER_NAME s, pinyinDatabase s)"

text \<open>What a control-strip click keeps while dataset \<open>b\<close> is on show.\<close>

definition keepsOther :: "dataset \<Rightarrow> hanzi \<Rightarrow> hanzi \<Rightarrow> bool" where
  "keepsOther b s s1 =
     (currentScene s1 = currentScene s \<and> workingList (other b) s1 = workingList (other b) s \<and>
      radicalPageNum s1 = radicalPageNum s \<and> hanziPageNum s1 = hanziPageNum s \<and>
      OWNER_NAME s1 = OWNER_NAME s)"

text \<open>
  A database whose radicals fill two pages of the grid, a session on it, and that session
  after a click on \<open>Radicals\<close> and a jump to page 2.
\<close>

definition paged_db :: PinyinDatabase where
  "paged_db =
     \<lparr>db_characters = [''A'', ''B'', ''C''], db_radicals = map toString [0 ..< 65],
      dictionary = Map.empty, syllables = [''a'']\<rparr>"

definition paged :: hanzi where
  "paged = init (Some ''owner'') paged_db Map.empty Map.empty (Num 2) Map.empty staticHost"

definition paged_radicals :: hanzi where
  "paged_radicals =
     commonHanziMenuControlStrip_behavior (Goto (Some ''2'')) ''guest''
       (mainMenu_behavior 2 paged)"

text \<open>
  The example session after a guest has spawned the first character of the page (box 0
  with visual model 1), and after the owner has then selected that entity.
\<close>

definition demo_spawned :: hanzi where
  "demo_spawned = commonHanziMenuControlStrip_behavior (Spawn 0) ''guest'' demo_common"

definition demo_selected :: hanzi where
  "demo_selected = box_onClick 1 0 ''owner'' demo_spawned"

text \<open>The scale of a box, if the heap has the box.\<close>

definition boxScale :: "hanzi \<Rightarrow> nat \<Rightarrow> vec3 option" where
  "boxScale s box = map_option (\<lambda>a. local_scale (actor_transform a)) (heap s box)"

text \<open>A path names a file directly inside the levels directory.\<close>

definition directlyInLevels :: "string \<Rightarrow> bool" where
  "directlyInLevels path =
     (prefix ''./public/levels/'' path \<and>
      CHR ''/'' \<notin> set (drop (length ''./public/levels/'') path))"

text \<open>
  What spawning establishes for every tracked box: some visual model is recorded with
  this box in \<open>highlightBoxes\<close>, and the prefab and the bounding box of its character are
  in the caches.
\<close>

definition tracked_ok :: "hanzi \<Rightarrow> bool" where
  "tracked_ok s =
     list_all
       (\<lambda>e. list_ex (\<lambda>act. map_of (highlightBoxes s) act = Some (fst e))
                (map fst (highlightBoxes s)) \<and>
            (\<exists>p. prefabs s (snd e) = Some (Some p)) \<and>
            dimensions s (snd e) \<noteq> None)
       (spawnedHanzi s)"

text \<open>The tracked boxes were created before the next identifier to be given out.\<close>

definition fresh_ids :: "hanzi \<Rightarrow> bool" where
  "fresh_ids s = list_all (\<lambda>e. fst e < next_id s) (spawnedHanzi s)"



text \<open>
  The three facts together that every state of a session satisfies: tracked boxes are as
  in \<open>tracked_ok\<close>, and tracked boxes and recorded visual models were created before the
  next identifier to be given out.
\<close>

definition entities_ok :: "hanzi \<Rightarrow> bool" where
  "entities_ok s =
     (tracked_ok s \<and> fresh_ids s \<and> list_all (\<lambda>e. fst e < next_id s) (highlightBoxes s))"






section \<open>Properties\<close>

subsection \<open>Numbers\<close>

lemma strict_neq_NaN: "strict_neq x NaN"
  by (cases x) simp_all

subsection \<open>Pinyin composition\<close>

lemma db_find_iff: "db_find db p \<longleftrightarrow> (\<exists>syl \<in> set (syllables db). prefix p syl)"
  by (simp add: db_find_def list_ex_iff)

lemma playSound_frame:
  "pinyinInfoText (playSound t s) = pinyinInfoText s"
  "pinyinDatabase (playSound t s) = pinyinDatabase s"
  "sprite (playSound t s) = sprite s"
  by (simp_all add: playSound_def split: option.splits prod.splits)

lemma playSound_sounds:
  "sounds (playSound t s) \<noteq> sounds s \<longleftrightarrow> sprite s t \<noteq> None"
  by (cases "sprite s t") (auto simp: playSound_def)

lemma putc_pinyinDatabase: "pinyinDatabase (putc c s) = pinyinDatabase s"
  by (simp add: putc_def putc_switch_def updatePinyinInfoPanel_def Let_def playSound_frame)

lemma putc_pinyinInfoText:
  "pinyinInfoText (putc c s) =
     (if c = ''Backspace'' then butlast (pinyinInfoText s)
      else if c = ''Clear'' \<or> c = ''Enter'' then []
      else if db_find (pinyinDatabase s) (pinyinInfoText s @ c) then pinyinInfoText s @ c
      else [])"
  by (simp add: putc_def putc_switch_def updatePinyinInfoPanel_def Let_def)

lemma putc_pinyinInfoPanel:
  "pinyinInfoPanel (putc c s) =
     (if pinyinInfoText (putc c s) \<noteq> [] then pinyinInfoText (putc c s)
      else if putc_error c s then PINYIN_INFO_ERROR_MESSAGE
      else PINYIN_INFO_PLACE_HOLDER)"
  by (simp add: putc_def updatePinyinInfoPanel_def Let_def)

lemma putc_Enter_sounds:
  "sounds (putc ''Enter'' s) =
     (if pinyinInfoText s \<noteq> [] \<and> pinyinInfoText s \<in> set (syllables (pinyinDatabase s))
      then sounds (playSound (soundKey s) s) else sounds s)"
  by (simp add: putc_def putc_switch_def updatePinyinInfoPanel_def Let_def)

lemma putc_buffer_ok: "buffer_ok s \<Longrightarrow> buffer_ok (putc c s)"
  unfolding buffer_ok_def putc_pinyinInfoText putc_pinyinDatabase db_find_iff
  by (auto intro: prefix_order.trans [OF prefixeq_butlast])

lemma putcs_buffer_ok: "buffer_ok s \<Longrightarrow> buffer_ok (putcs cs s)"
  by (induction cs arbitrary: s) (simp_all add: putc_buffer_ok)

text \<open>
  C3. Whatever sequence of keys is fed to \<open>putc\<close>, one at a time, the Pinyin buffer is at
  every intermediate state empty or a prefix of a syllable of the database. A key other
  than the three control keys that makes the buffer a prefix of no syllable empties the
  buffer and puts the error message on the info panel; after the next key that is not
  itself rejected the panel shows the buffer or the placeholder again.
\<close>

theorem putc_keeps_valid_prefix:
  assumes "buffer_ok s"
  shows "(\<forall>n \<le> length cs. buffer_ok (putcs (take n cs) s)) \<and>
         (c \<notin> {''Backspace'', ''Clear'', ''Enter''} \<and>
          \<not> (\<exists>syl \<in> set (syllables (pinyinDatabase s)). prefix (pinyinInfoText s @ c) syl)
          \<longrightarrow> pinyinInfoText (putc c s) = [] \<and>
              pinyinInfoPanel (putc c s) = PINYIN_INFO_ERROR_MESSAGE) \<and>
         (\<not> putc_error c2 (putc c s)
          \<longrightarrow> pinyinInfoPanel (putc c2 (putc c s)) =
                (if pinyinInfoText (putc c2 (putc c s)) \<noteq> []
                 then pinyinInfoText (putc c2 (putc c s))
                 else PINYIN_INFO_PLACE_HOLDER))"
proof (intro conjI)
  show "\<forall>n \<le> length cs. buffer_ok (putcs (take n cs) s)"
    using assms by (simp add: putcs_buffer_ok)
next
  show "c \<notin> {''Backspace'', ''Clear'', ''Enter''} \<and>
        \<not> (\<exists>syl \<in> set (syllables (pinyinDatabase s)). prefix (pinyinInfoText s @ c) syl)
        \<longrightarrow> pinyinInfoText (putc c s) = [] \<and>
            pinyinInfoPanel (putc c s) = PINYIN_INFO_ERROR_MESSAGE"
  proof
    assume a: "c \<notin> {''Backspace'', ''Clear'', ''Enter''} \<and>
        \<not> (\<exists>syl \<in> set (syllables (pinyinDatabase s)). prefix (pinyinInfoText s @ c) syl)"
    then have nf: "\<not> db_find (pinyinDatabase s) (pinyinInfoText s @ c)"
      by (simp add: db_find_iff)
    from a have keys: "c \<noteq> ''Backspace''" "c \<noteq> ''Clear''" "c \<noteq> ''Enter''"
      by simp_all
    have buf: "pinyinInfoText (putc c s) = []"
      using nf keys by (simp add: putc_pinyinInfoText)
    have err: "putc_error c s"
      using nf keys by (simp add: putc_error_def)
    show "pinyinInfoText (putc c s) = [] \<and>
            pinyinInfoPanel (putc c s) = PINYIN_INFO_ERROR_MESSAGE"
      using buf err by (simp add: putc_pinyinInfoPanel)
  qed
next
  show "\<not> putc_error c2 (putc c s)
          \<longrightarrow> pinyinInfoPanel (putc c2 (putc c s)) =
                (if pinyinInfoText (putc c2 (putc c s)) \<noteq> []
                 then pinyinInfoText (putc c2 (putc c s))
                 else PINYIN_INFO_PLACE_HOLDER)"
    by (simp add: putc_pinyinInfoPanel)
qed

subsection \<open>The example session\<close>

lemmas demo_simps = demo_def init_def switchScene_def refreshCommonHanziMenu_def
  updateCommonHanziMenu_def Let_def

lemma demo_pinyin:
  "pinyinInfoText demo = []" "pinyinDatabase demo = demo_db"
  by (simp_all add: demo_simps)

theorem putc_keeps_valid_prefix_witness:
  "buffer_ok demo \<and>
   buffer_ok (putcs [''zh''] demo) \<and>
   buffer_ok (putcs [''zh'', ''q''] demo) \<and>
   buffer_ok (putcs [''zh'', ''q'', ''a''] demo) \<and>
   ''q'' \<notin> {''Backspace'', ''Clear'', ''Enter''} \<and>
   \<not> (\<exists>syl \<in> set (syllables (pinyinDatabase (putc ''zh'' demo))).
        prefix (pinyinInfoText (putc ''zh'' demo) @ ''q'') syl) \<and>
   pinyinInfoText (putc ''q'' (putc ''zh'' demo)) = [] \<and>
   pinyinInfoPanel (putc ''q'' (putc ''zh'' demo)) = ''No Such Syllable'' \<and>
   \<not> putc_error ''a'' (putc ''q'' (putc ''zh'' demo)) \<and>
   pinyinInfoPanel (putc ''a'' (putc ''q'' (putc ''zh'' demo))) = ''a''"
proof -
  have ok0: "buffer_ok demo"
    by (simp add: buffer_ok_def demo_pinyin)
  have ok1: "buffer_ok (putc ''zh'' demo)"
    using ok0 by (rule putc_buffer_ok)
  have txt1: "pinyinInfoText (putc ''zh'' demo) = ''zh''"
    by (simp add: putc_pinyinInfoText demo_pinyin db_find_def demo_db_def)
  have db1: "syllables (pinyinDatabase (putc ''zh'' demo)) = [''a'', ''zhi'', ''zhong'', ''ma'', ''shui'']"
    by (simp add: putc_pinyinDatabase demo_pinyin demo_db_def)
  have bad: "\<not> (\<exists>syl \<in> set (syllables (pinyinDatabase (putc ''zh'' demo))).
        prefix (pinyinInfoText (putc ''zh'' demo) @ ''q'') syl)"
    by (simp add: txt1 db1)
  have txt2: "pinyinInfoText (putc ''q'' (putc ''zh'' demo)) = []"
    using putc_keeps_valid_prefix [OF ok1, of "[]" "''q''" "''a''"] bad by simp
  have ne: "\<not> putc_error ''a'' (putc ''q'' (putc ''zh'' demo))"
    by (simp add: putc_error_def txt2 putc_pinyinDatabase demo_pinyin db_find_def demo_db_def)
  have txt3: "pinyinInfoText (putc ''a'' (putc ''q'' (putc ''zh'' demo))) = ''a''"
    by (simp add: putc_pinyinInfoText txt2 putc_pinyinDatabase demo_pinyin db_find_def demo_db_def)
  have run: "\<forall>n \<le> length [''zh'', ''q'', ''a''].
      buffer_ok (putcs (take n [''zh'', ''q'', ''a'']) demo)"
    using putc_keeps_valid_prefix [OF ok0, of "[''zh'', ''q'', ''a'']" "''x''" "''y''"]
    by blast
  have r1: "buffer_ok (putcs [''zh''] demo)"
    using run [rule_format, of 1] by simp
  have r2: "buffer_ok (putcs [''zh'', ''q''] demo)"
    using run [rule_format, of 2] by (simp add: numeral_2_eq_2)
  have r3: "buffer_ok (putcs [''zh'', ''q'', ''a''] demo)"
    using run [rule_format, of 3] by simp
  have rej: "pinyinInfoPanel (putc ''q'' (putc ''zh'' demo)) = ''No Such Syllable''"
    using putc_keeps_valid_prefix [OF ok1, of "[]" "''q''" "''a''"] bad
    by (simp add: PINYIN_INFO_ERROR_MESSAGE_def)
  have nxt: "pinyinInfoPanel (putc ''a'' (putc ''q'' (putc ''zh'' demo))) = ''a''"
    using putc_keeps_valid_prefix [OF ok1, of "[]" "''q''" "''a''"] ne txt3
    by simp
  have keys: "''q'' \<notin> {''Backspace'', ''Clear'', ''Enter''}"
    by simp
  show ?thesis
    using ok0 r1 r2 r3 keys bad txt2 rej ne nxt by blast
qed

text \<open>
  C4 (amended). \<open>Enter\<close> passes the exact-match check, and shows no error, exactly when
  the buffer is non-empty and equals a syllable of the database; a clip is started
  exactly when, in addition, the sprite table has a segment under the key made from the
  buffer and the selected tone. After \<open>Enter\<close> the buffer is empty in every case.
\<close>

theorem putc_Enter_commit:
  "pinyinInfoText (putc ''Enter'' s) = [] \<and>
   (sounds (putc ''Enter'' s) \<noteq> sounds s \<longleftrightarrow>
      pinyinInfoText s \<noteq> [] \<and> pinyinInfoText s \<in> set (syllables (pinyinDatabase s)) \<and>
      sprite s (soundKey s) \<noteq> None) \<and>
   pinyinInfoPanel (putc ''Enter'' s) =
     (if pinyinInfoText s \<noteq> [] \<and> pinyinInfoText s \<in> set (syllables (pinyinDatabase s))
      then PINYIN_INFO_PLACE_HOLDER else PINYIN_INFO_ERROR_MESSAGE)"
proof (intro conjI)
  show "pinyinInfoText (putc ''Enter'' s) = []"
    by (simp add: putc_pinyinInfoText)
  show "sounds (putc ''Enter'' s) \<noteq> sounds s \<longleftrightarrow>
      pinyinInfoText s \<noteq> [] \<and> pinyinInfoText s \<in> set (syllables (pinyinDatabase s)) \<and>
      sprite s (soundKey s) \<noteq> None"
    by (simp add: putc_Enter_sounds playSound_sounds)
  show "pinyinInfoPanel (putc ''Enter'' s) =
     (if pinyinInfoText s \<noteq> [] \<and> pinyinInfoText s \<in> set (syllables (pinyinDatabase s))
      then PINYIN_INFO_PLACE_HOLDER else PINYIN_INFO_ERROR_MESSAGE)"
    by (simp add: putc_pinyinInfoPanel putc_pinyinInfoText putc_error_def)
qed

lemma demo_sprite:
  "sprite demo = map_of [(''a1'', (''0'', ''450'')), (''zhong1'', (''450'', ''500''))]"
  "pinyinTone_highlighted demo = False" "sounds demo = []"
  by (simp_all add: demo_simps)

lemma putc_sprite: "sprite (putc c s) = sprite s"
  by (simp add: putc_def putc_switch_def updatePinyinInfoPanel_def Let_def playSound_frame)

lemma putc_tone:
  "pinyinTone_highlighted (putc c s) = pinyinTone_highlighted s"
  "pinyinTone_coord_y (putc c s) = pinyinTone_coord_y s"
  by (simp_all add: putc_def putc_switch_def updatePinyinInfoPanel_def Let_def playSound_def
        split: option.splits prod.splits)

lemma demo_a:
  "pinyinInfoText (putc ''a'' demo) = ''a''"
  by (simp add: putc_pinyinInfoText demo_pinyin db_find_def demo_db_def)

text \<open>
  With no tone selected the key is the bare syllable, which the example sprite table
  does not have: the buffer equals a syllable and no clip is started.
\<close>

theorem putc_Enter_silent_counterexample:
  "\<not> (sounds (putc ''Enter'' (putc ''a'' demo)) \<noteq> sounds (putc ''a'' demo) \<longleftrightarrow>
        pinyinInfoText (putc ''a'' demo) \<in> set (syllables (pinyinDatabase (putc ''a'' demo))))"
proof -
  have key: "soundKey (putc ''a'' demo) = ''a''"
    by (simp add: soundKey_def demo_a putc_tone demo_sprite u_umlaut_def)
  have "sprite (putc ''a'' demo) (soundKey (putc ''a'' demo)) = None"
    by (simp add: key putc_sprite demo_sprite)
  then have "sounds (putc ''Enter'' (putc ''a'' demo)) = sounds (putc ''a'' demo)"
    by (simp add: putc_Enter_sounds playSound_def)
  moreover have "pinyinInfoText (putc ''a'' demo)
      \<in> set (syllables (pinyinDatabase (putc ''a'' demo)))"
    by (simp add: demo_a putc_pinyinDatabase demo_pinyin demo_db_def)
  ultimately show ?thesis by simp
qed

text \<open>With the first tone selected the same buffer starts the clip \<open>a1\<close>.\<close>

theorem putc_Enter_commit_witness:
  "sounds (putc ''Enter'' ((putc ''a'' demo)\<lparr>pinyinTone_highlighted := True\<rparr>)) \<noteq>
     sounds ((putc ''a'' demo)\<lparr>pinyinTone_highlighted := True\<rparr>) \<and>
   pinyinInfoText (putc ''Enter'' ((putc ''a'' demo)\<lparr>pinyinTone_highlighted := True\<rparr>)) = []"
proof -
  define t where "t = (putc ''a'' demo)\<lparr>pinyinTone_highlighted := True\<rparr>"
  have buf: "pinyinInfoText t = ''a''"
    by (simp add: t_def demo_a)
  have tone: "pinyinTone_highlighted t" "pinyinTone_coord_y t = 0"
    by (simp_all add: t_def putc_tone demo_simps)
  have key: "soundKey t = ''a1''"
    by (simp add: soundKey_def buf tone u_umlaut_def)
  have "sprite t = sprite demo"
    by (simp add: t_def putc_sprite)
  then have sp: "sprite t (soundKey t) \<noteq> None"
    by (simp add: key demo_sprite)
  have "syllables (pinyinDatabase t) = syllables demo_db"
    by (simp add: t_def putc_pinyinDatabase demo_pinyin)
  then have syl: "pinyinInfoText t \<in> set (syllables (pinyinDatabase t))"
    by (simp add: buf demo_db_def)
  have ne: "pinyinInfoText t \<noteq> []"
    by (simp add: buf)
  from putc_Enter_commit [of t] sp syl ne
  have "sounds (putc ''Enter'' t) \<noteq> sounds t \<and> pinyinInfoText (putc ''Enter'' t) = []"
    by blast
  then show ?thesis
    unfolding t_def .
qed

subsection \<open>Searching\<close>



lemma prompt_frame:
  "currentScene (prompt u m s) = currentScene s"
  "pinyinDatabase (prompt u m s) = pinyinDatabase s"
  "characters (prompt u m s) = characters s"
  "radicals (prompt u m s) = radicals s"
  "radicalPageNum (prompt u m s) = radicalPageNum s"
  "hanziPageNum (prompt u m s) = hanziPageNum s"
  "curPageNum (prompt u m s) = curPageNum s"
  by (simp_all add: prompt_def)





lemma inHanziScene_sceneOf: "currentScene s = sceneOf d \<Longrightarrow> inHanziScene s"
  by (cases d) (simp_all add: inHanziScene_def)

lemma demo_common_simps:
  "currentScene demo_common = ''common_hanzi_menu''"
  "pinyinDatabase demo_common = demo_db"
  "characters demo_common = [''A'', ''B'', ''C'']"
  "radicals demo_common = [''R'', ''S'']"
  "curPageNum demo_common = 1"
  "OWNER_NAME demo_common = Some ''owner''"
  by (simp_all add: demo_common_def mainMenu_behavior_def demo_simps setPageNum_def
        getCharacters_def demo_db_def)


text \<open>
  The control strip's handler with the answer arriving at once is the continuation in
  the state the dialog leaves: the scene and the lists are those of the click.
\<close>

lemma search_at_once:
  "inHanziScene s \<Longrightarrow>
   commonHanziMenuControlStrip_behavior (Search r) u s =
     search_then r (prompt u ''Search Hanzi'' s)"
  by (simp add: commonHanziMenuControlStrip_behavior_def)



subsection \<open>Switching between the datasets\<close>

text \<open>What the page memory depends on.\<close>

lemma switchScene_frame:
  "characters (switchScene x s) = characters s"
  "radicals (switchScene x s) = radicals s"
  "radicalPageNum (switchScene x s) = radicalPageNum s"
  "hanziPageNum (switchScene x s) = hanziPageNum s"
  "curPageNum (switchScene x s) = curPageNum s"
  "OWNER_NAME (switchScene x s) = OWNER_NAME s"
  by (simp_all add: switchScene_def Let_def)

lemma switchScene_scene:
  "currentScene s \<noteq> [] \<Longrightarrow> currentScene (switchScene x s) = x"
  by (simp add: switchScene_def Let_def)

lemma sceneOf_nonempty: "sceneOf d \<noteq> []" "sceneOf d \<noteq> ''main_menu''"
  by (cases d; simp)+

lemma home_onClick_owner:
  assumes "checkUserName u (OWNER_NAME s)" "currentScene s \<noteq> []"
  shows "currentScene (home_onClick u s) = ''main_menu''"
    "characters (home_onClick u s) = characters s"
    "radicals (home_onClick u s) = radicals s"
    "radicalPageNum (home_onClick u s) = radicalPageNum s"
    "hanziPageNum (home_onClick u s) = hanziPageNum s"
    "curPageNum (home_onClick u s) = curPageNum s"
    "OWNER_NAME (home_onClick u s) = OWNER_NAME s"
  using assms by (simp_all add: home_onClick_def switchScene_frame switchScene_scene)

lemma refresh_frame:
  "characters (refreshCommonHanziMenu s) = characters s"
  "radicals (refreshCommonHanziMenu s) = radicals s"
  "radicalPageNum (refreshCommonHanziMenu s) = radicalPageNum s"
  "hanziPageNum (refreshCommonHanziMenu s) = hanziPageNum s"
  "curPageNum (refreshCommonHanziMenu s) = curPageNum s"
  "OWNER_NAME (refreshCommonHanziMenu s) = OWNER_NAME s"
  "currentScene (refreshCommonHanziMenu s) = currentScene s"
  by (simp_all add: refreshCommonHanziMenu_def updateCommonHanziMenu_def)

lemma setPageNum_frame:
  "characters (setPageNum p n s) = characters s"
  "radicals (setPageNum p n s) = radicals s"
  "radicalPageNum (setPageNum p n s) = radicalPageNum s"
  "hanziPageNum (setPageNum p n s) = hanziPageNum s"
  "OWNER_NAME (setPageNum p n s) = OWNER_NAME s"
  "currentScene (setPageNum p n s) = currentScene s"
  by (simp_all add: setPageNum_def split: option.splits)

lemma mainMenu_enter:
  assumes "currentScene s = ''main_menu''"
  shows "currentScene (mainMenu_behavior (mainMenuRow d) s) = sceneOf d"
    "characters (mainMenu_behavior (mainMenuRow d) s) = characters s"
    "radicals (mainMenu_behavior (mainMenuRow d) s) = radicals s"
    "remembered (other d) (mainMenu_behavior (mainMenuRow d) s) = Some (curPageNum s)"
    "remembered d (mainMenu_behavior (mainMenuRow d) s) = remembered d s"
    "OWNER_NAME (mainMenu_behavior (mainMenuRow d) s) = OWNER_NAME s"
    "curPageNum (mainMenu_behavior (mainMenuRow d) s) =
       (case remembered d s of
          None \<Rightarrow> curPageNum s
        | Some q \<Rightarrow> max 1 (min q (totalPages (length (workingList d s)))))"
  using assms
  by (cases d; simp add: mainMenu_behavior_def Let_def refresh_frame setPageNum_frame
        switchScene_frame switchScene_scene getCharacters_def setPageNum_def
        split: option.splits)+

lemma update_actor_pagerView: "pagerView (update_actor i f s) = pagerView s"
  by (simp add: pagerView_def update_actor_def)

lemma destroy_pagerView: "pagerView (destroy i s) = pagerView s"
  by (simp add: pagerView_def destroy_def)

lemma prompt_pagerView: "pagerView (prompt u m s) = pagerView s"
  by (simp add: pagerView_def prompt_def)

lemma loadGltf_pagerView: "loadGltf c s = Some s1 \<Longrightarrow> pagerView s1 = pagerView s"
  by (auto simp: loadGltf_def pagerView_def split: if_splits option.splits prod.splits)

lemma spawnItem_pagerView: "pagerView (spawnItem c t e s) = pagerView s"
proof (cases c)
  case None
  then show ?thesis by (simp add: spawnItem_def)
next
  case (Some ch)
  show ?thesis
  proof (cases "loadGltf ch s")
    case None
    with Some show ?thesis by (simp add: spawnItem_def)
  next
    case (Some s1)
    have v1: "pagerView s1 = pagerView s"
      using Some by (rule loadGltf_pagerView)
    have "pagerView (spawnItem c t e s) = pagerView s1"
      using \<open>c = Some ch\<close> Some
      by (simp add: spawnItem_def Let_def pagerView_def update_actor_def
            split: option.splits)
    then show ?thesis by (simp add: v1)
  qed
qed

lemma deleteItem_pagerView: "deleteItem a s = Some s1 \<Longrightarrow> pagerView s1 = pagerView s"
  by (auto simp: deleteItem_def Let_def destroy_pagerView split: option.splits)
     (simp add: pagerView_def update_actor_def)

lemma clearLoop_pagerView: "pagerView (clearLoop ks s) = pagerView s"
  by (induction ks arbitrary: s) (auto simp: deleteItem_pagerView split: option.splits)

lemma clearLevel_pagerView: "pagerView (clearLevel s) = pagerView s"
  by (simp add: clearLevel_def clearLoop_pagerView)

lemma saveLevel_pagerView: "pagerView (saveLevel f u ow ok s) = pagerView s"
  by (simp add: saveLevel_def writeLevel_def Let_def prompt_pagerView)
     (simp add: pagerView_def prompt_def)

lemma foldl_spawn_pagerView:
  "pagerView (foldl (\<lambda>s1 d. spawnItem (Some (fst d)) (Some (snd d)) e s1) s lv) = pagerView s"
  by (induction lv arbitrary: s) (simp_all add: spawnItem_pagerView)

lemma loadLevel_pagerView: "pagerView (loadLevel f u e s) = pagerView s"
  by (simp add: loadLevel_def prompt_pagerView foldl_spawn_pagerView split: option.splits)

lemma keepsOther_pagerView: "pagerView s1 = pagerView s \<Longrightarrow> keepsOther b s s1"
  by (cases b) (simp_all add: keepsOther_def pagerView_def)

lemma keepsOther_refl: "keepsOther b s s"
  by (simp add: keepsOther_def)

lemma keepsOther_trans: "keepsOther b s s1 \<Longrightarrow> keepsOther b s1 s2 \<Longrightarrow> keepsOther b s s2"
  by (simp add: keepsOther_def)

lemma keepsOther_page:
  "keepsOther b s s1 \<Longrightarrow> keepsOther b s (refreshCommonHanziMenu (setPageNum p n s1))"
  "keepsOther b s s1 \<Longrightarrow> keepsOther b s (refreshCommonHanziMenu (resetPageNum s1))"
  "keepsOther b s s1 \<Longrightarrow> keepsOther b s (refreshCommonHanziMenu (decrementPageNum s1))"
  by (cases b; simp add: keepsOther_def refresh_frame setPageNum_frame resetPageNum_def
        decrementPageNum_def)+

lemma searchHanzi_keepsOther:
  "currentScene s = sceneOf b \<Longrightarrow> searchHanzi q s = Some s1 \<Longrightarrow> keepsOther b s s1"
  by (cases b) (auto simp: searchHanzi_def keepsOther_def split: if_splits)

lemma strip_action_keepsOther:
  assumes "currentScene s = sceneOf b"
  shows "keepsOther b s (strip_action e u s)"
proof (cases e)
  case (Search r)
  have p0: "keepsOther b s (prompt u ''Search Hanzi'' s)"
    by (rule keepsOther_pagerView) (rule prompt_pagerView)
  have sc0: "currentScene (prompt u ''Search Hanzi'' s) = sceneOf b"
    using assms by (simp add: prompt_def)
  show ?thesis
  proof (cases r)
    case None
    with Search p0 show ?thesis by (simp add: search_then_def)
  next
    case (Some q)
    show ?thesis
    proof (cases "searchHanzi q (prompt u ''Search Hanzi'' s)")
      case None
      with Search Some p0 show ?thesis by (simp add: search_then_def)
    next
      case (Some s1)
      have "keepsOther b s s1"
        using p0 searchHanzi_keepsOther [OF sc0 Some] by (rule keepsOther_trans)
      then have "keepsOther b s (refreshCommonHanziMenu (resetPageNum s1))"
        by (rule keepsOther_page)
      with Search \<open>r = Some q\<close> Some show ?thesis by (simp add: search_then_def)
    qed
  qed
next
  case (Goto r)
  have p0: "keepsOther b s (prompt u ''Goto page'' s)"
    by (rule keepsOther_pagerView) (rule prompt_pagerView)
  show ?thesis
    using Goto p0 keepsOther_page(1) [OF p0]
    by (cases r) (simp_all add: Let_def goto_then_def)
next
  case Prev
  then show ?thesis
    using keepsOther_page(3) [OF keepsOther_refl] by simp
next
  case Next
  then show ?thesis
    using keepsOther_page(1) [OF keepsOther_refl] by (simp add: incrementPageNum_def)
next
  case (Spawn i)
  then show ?thesis
    by (simp add: keepsOther_pagerView spawnItem_pagerView)
next
  case Delete
  then show ?thesis
    by (auto simp: keepsOther_refl keepsOther_pagerView deleteItem_pagerView
          split: option.splits)
next
  case (Save r ow ok)
  then show ?thesis
    by (cases r)
       (simp_all add: keepsOther_pagerView saveLevel_pagerView prompt_pagerView Let_def
          save_then_def)
next
  case (Load r)
  then show ?thesis
    by (cases r)
       (simp_all add: keepsOther_pagerView loadLevel_pagerView prompt_pagerView Let_def
          load_then_def)
next
  case (Clear c)
  then show ?thesis
    by (simp add: keepsOther_pagerView clearLevel_pagerView prompt_pagerView Let_def
          clear_then_def)
qed

lemma strip_run_keepsOther:
  "currentScene s = sceneOf b \<Longrightarrow> keepsOther b s (strip_run es s)"
proof (induction es arbitrary: s)
  case Nil
  then show ?case by (simp add: keepsOther_refl)
next
  case (Cons e es)
  let ?s1 = "commonHanziMenuControlStrip_behavior (fst e) (snd e) s"
  have k1: "keepsOther b s ?s1"
    using strip_action_keepsOther [OF Cons.prems]
    by (simp add: commonHanziMenuControlStrip_behavior_def keepsOther_refl)
  then have "currentScene ?s1 = sceneOf b"
    using Cons.prems by (simp add: keepsOther_def)
  then have "keepsOther b ?s1 (strip_run es ?s1)"
    by (rule Cons.IH)
  with k1 show ?case
    by (simp add: keepsOther_trans)
qed

lemma other_other: "other (other d) = d"
  by (cases d) simp_all

lemma switchTo_enter:
  assumes "checkUserName u (OWNER_NAME s)" "currentScene s \<noteq> []"
  shows "currentScene (switchTo d u s) = sceneOf d"
    "workingList d' (switchTo d u s) = workingList d' s"
    "remembered (other d) (switchTo d u s) = Some (curPageNum s)"
    "OWNER_NAME (switchTo d u s) = OWNER_NAME s"
    "curPageNum (switchTo d u s) =
       (case remembered d s of
          None \<Rightarrow> curPageNum s
        | Some q \<Rightarrow> max 1 (min q (totalPages (length (workingList d s)))))"
proof -
  note h = home_onClick_owner [OF assms]
  note m = mainMenu_enter [OF h(1), where d = d]
  have wl: "workingList d'' (home_onClick u s) = workingList d'' s" for d''
    by (cases d'') (simp_all add: h)
  have rm: "remembered d (home_onClick u s) = remembered d s"
    by (cases d) (simp_all add: h)
  show "currentScene (switchTo d u s) = sceneOf d"
    by (simp add: switchTo_def m)
  show "workingList d' (switchTo d u s) = workingList d' s"
    by (cases d') (simp_all add: switchTo_def m h)
  show "remembered (other d) (switchTo d u s) = Some (curPageNum s)"
    by (simp add: switchTo_def m h)
  show "OWNER_NAME (switchTo d u s) = OWNER_NAME s"
    by (simp add: switchTo_def m h)
  show "curPageNum (switchTo d u s) =
       (case remembered d s of
          None \<Rightarrow> curPageNum s
        | Some q \<Rightarrow> max 1 (min q (totalPages (length (workingList d s)))))"
    by (simp add: switchTo_def m h wl rm split: option.splits)
qed

text \<open>
  The direct round trip, in which the page memory works. Let dataset \<open>a\<close> be on show at
  page \<open>p\<close>, a page of its working list (\<open>p\<close> is at least 1 and at most the number of
  pages, or 1 when the list is empty). When the owner
  goes to the other dataset by way of the main menu and comes back the same way, then,
  whatever was clicked on the control strip in between (paging and searching the other
  dataset included), \<open>a\<close> is on show at page \<open>p\<close> again with its working list as it was,
  and the page remembered for the other dataset is the page that dataset was left on.
\<close>

theorem page_restored_after_round_trip:
  assumes scene: "currentScene s = sceneOf a"
    and owner: "checkUserName u (OWNER_NAME s)"
    and lo: "1 \<le> curPageNum s"
    and hi: "curPageNum s \<le> max 1 (totalPages (length (workingList a s)))"
    and s2: "s2 = strip_run es (switchTo (other a) u s)"
    and s3: "s3 = switchTo a u s2"
  shows "currentScene s3 = sceneOf a \<and> curPageNum s3 = curPageNum s \<and>
         workingList a s3 = workingList a s \<and>
         remembered (other a) s3 = Some (curPageNum s2)"
proof -
  let ?s1 = "switchTo (other a) u s"
  have ne: "currentScene s \<noteq> []"
    using scene by (simp add: sceneOf_nonempty)
  note e1 = switchTo_enter [OF owner ne, where d = "other a"]
  have sc1: "currentScene ?s1 = sceneOf (other a)"
    by (rule e1(1))
  have rem1: "remembered a ?s1 = Some (curPageNum s)"
    using e1(3) by (simp add: other_other)
  have k: "keepsOther (other a) ?s1 s2"
    unfolding s2 using sc1 by (rule strip_run_keepsOther)
  have sc2: "currentScene s2 = sceneOf (other a)"
    using k sc1 by (simp add: keepsOther_def)
  have own2: "checkUserName u (OWNER_NAME s2)"
    using k owner e1(4) by (simp add: keepsOther_def)
  have wl2: "workingList a s2 = workingList a s"
    using k e1(2) [where d' = a] by (simp add: keepsOther_def other_other)
  have rem2: "remembered a s2 = Some (curPageNum s)"
    using k rem1 by (cases a) (simp_all add: keepsOther_def)
  have ne2: "currentScene s2 \<noteq> []"
    using sc2 by (simp add: sceneOf_nonempty)
  note e3 = switchTo_enter [OF own2 ne2, where d = a]
  have "curPageNum s3 = max 1 (min (curPageNum s) (totalPages (length (workingList a s))))"
    unfolding s3 by (simp add: e3(5) rem2 wl2)
  then have pg: "curPageNum s3 = curPageNum s"
    using lo hi by simp
  show ?thesis
    using pg e3(1) e3(2) [where d' = a] e3(3) wl2 by (simp add: s3)
qed

lemma paged_radicals_simps:
  "currentScene paged_radicals = ''radical_menu''"
  "OWNER_NAME paged_radicals = Some ''owner''"
  "curPageNum paged_radicals = 2"
  "length (radicals paged_radicals) = 65"
  by (simp_all add: paged_radicals_def paged_def paged_db_def mainMenu_behavior_def
        init_def switchScene_def refreshCommonHanziMenu_def updateCommonHanziMenu_def
        Let_def setPageNum_def getCharacters_def
        commonHanziMenuControlStrip_behavior_def inHanziScene_def prompt_def goto_then_def
        parseInt_def digitValue_def isWhiteSpace_def strict_neq_NaN totalPages_def
        pageSize_def)

theorem page_restored_after_round_trip_witness:
  "currentScene paged_radicals = sceneOf RadicalSet \<and>
   checkUserName ''owner'' (OWNER_NAME paged_radicals) \<and>
   1 \<le> curPageNum paged_radicals \<and>
   curPageNum paged_radicals
     \<le> max 1 (totalPages (length (workingList RadicalSet paged_radicals))) \<and>
   curPageNum
     (switchTo RadicalSet ''owner''
        (strip_run [(Prev, ''guest''), (Search (Some ''a''), ''guest'')]
           (switchTo CharacterSet ''owner'' paged_radicals))) = 2"
proof -
  have scene: "currentScene paged_radicals = sceneOf RadicalSet"
    by (simp add: paged_radicals_simps)
  have owner: "checkUserName ''owner'' (OWNER_NAME paged_radicals)"
    by (simp add: paged_radicals_simps checkUserName_def)
  have lo: "1 \<le> curPageNum paged_radicals"
    by (simp add: paged_radicals_simps)
  have hi: "curPageNum paged_radicals
      \<le> max 1 (totalPages (length (workingList RadicalSet paged_radicals)))"
    by (simp add: paged_radicals_simps totalPages_def pageSize_def)
  show ?thesis
    using page_restored_after_round_trip [OF scene owner lo hi refl refl,
        of "[(Prev, ''guest''), (Search (Some ''a''), ''guest'')]"]
      scene owner lo hi
    by (simp add: paged_radicals_simps(3))
qed

subsection \<open>The example session with one entity\<close>

lemma demo_common_entities:
  "prefabs demo_common = Map.empty" "dimensions demo_common = Map.empty"
  "gltf demo_common = map_of [(''A'', (Some 7, demo_bbox))]"
  "heap demo_common = Map.empty" "live demo_common = []" "next_id demo_common = 0"
  "highlightBoxes demo_common = []" "spawnedHanzi demo_common = []"
  "highlightedActor demo_common = None" "menuWidth demo_common = Num 2"
  "files demo_common = Map.empty" "prompts demo_common = []"
  by (simp_all add: demo_common_def mainMenu_behavior_def demo_simps setPageNum_def
        getCharacters_def)

lemma demo_spawned_simps:
  "currentScene demo_spawned = ''common_hanzi_menu''"
  "OWNER_NAME demo_spawned = Some ''owner''"
  "pinyinDatabase demo_spawned = demo_db"
  "highlightBoxes demo_spawned = [(1, 0)]"
  "spawnedHanzi demo_spawned = [(0, ''A'')]"
  "live demo_spawned = [0, 1]"
  "highlightedActor demo_spawned = None"
  "boxScale demo_spawned 0 = Some \<lparr>vx = Num (8 / 10000), vy = Num (8 / 10000), vz = Num (8 / 10000)\<rparr>"
  "map_option parentId (heap demo_spawned 1) = Some (Some 0)"
  "map_option parentId (heap demo_spawned 0) = Some None"
  "map_option subscribed (heap demo_spawned 0) = Some True"
  "files demo_spawned = Map.empty" "prompts demo_spawned = []"
  by (simp_all add: demo_spawned_def commonHanziMenuControlStrip_behavior_def inHanziScene_def
        demo_common_simps demo_common_entities getCharacters_def spawnItem_def loadGltf_def
        Let_def update_actor_def boxScale_def defaultSpawnTransform_def HANZI_MODEL_SCALE_def)

lemma demo_selected_simps:
  "currentScene demo_selected = ''common_hanzi_menu''"
  "OWNER_NAME demo_selected = Some ''owner''"
  "highlightBoxes demo_selected = [(1, 0)]"
  "spawnedHanzi demo_selected = [(0, ''A'')]"
  "live demo_selected = [0, 1]"
  "highlightedActor demo_selected = Some 1"
  "boxScale demo_selected 0 = Some \<lparr>vx = Num (8 / 10000), vy = Num (8 / 10000), vz = Num (8 / 10000)\<rparr>"
  "map_option parentId (heap demo_selected 1) = Some (Some 0)"
  "map_option parentId (heap demo_selected 0) = Some None"
  "map_option subscribed (heap demo_selected 0) = Some True"
  using demo_spawned_simps
  by (auto simp add: demo_selected_def box_onClick_def checkUserName_def
        Let_def update_actor_def boxScale_def updateHanziInfoPanel_def demo_db_def
        split: option.splits)

subsection \<open>Scale editing\<close>

lemma withSelectedBox_scale:
  assumes "highlightedActor s = Some h" "map_of (highlightBoxes s) h = Some box"
    and "boxScale s box = Some sc"
  shows "boxScale (withSelectedBox f s) box = Some (f sc)"
    and "numberInput_text (withSelectedBox f s) = jsdiv (vx (f sc)) HANZI_MODEL_SCALE"
    and "highlightedActor (withSelectedBox f s) = Some h"
    and "highlightBoxes (withSelectedBox f s) = highlightBoxes s"
  using assms
  by (auto simp: withSelectedBox_def boxScale_def update_actor_def Let_def
        split: option.splits)

text \<open>
  C8. The text \<open>abc\<close> is not a number, and the guard \<open>int !== NaN\<close> lets it through: the
  scale of the selected entity's box, \<open>0.0008\<close> on each axis before, is \<open>NaN\<close> on each axis
  after the dialog. The guard of the goto dialog lets the same text through to
  \<open>setPageNum\<close>.
\<close>

theorem setScale_non_numeric_writes_NaN:
  "parseInt ''abc'' = None \<and>
   strict_neq (jsmul (Number (parseInt ''abc'')) HANZI_MODEL_SCALE) NaN \<and>
   strict_neq (Number (parseInt ''abc'')) NaN \<and>
   boxScale demo_selected 0 =
     Some \<lparr>vx = Num (8 / 10000), vy = Num (8 / 10000), vz = Num (8 / 10000)\<rparr> \<and>
   boxScale (numberInput_onEdit (Some ''abc'') ''owner'' demo_selected) 0 =
     Some \<lparr>vx = NaN, vy = NaN, vz = NaN\<rparr>"
proof -
  have p: "parseInt ''abc'' = None"
    by (simp add: parseInt_def digitValue_def isWhiteSpace_def)
  have n: "jsmul (Number (parseInt ''abc'')) HANZI_MODEL_SCALE = NaN"
    by (simp add: p Number_def jsmul_def)
  let ?s0 = "prompt ''owner'' ''Change scale to'' demo_selected"
  have sel: "highlightedActor ?s0 = Some 1" "map_of (highlightBoxes ?s0) 1 = Some 0"
    "boxScale ?s0 0 =
       Some \<lparr>vx = Num (8 / 10000), vy = Num (8 / 10000), vz = Num (8 / 10000)\<rparr>"
    using demo_selected_simps(7)
    by (simp_all add: prompt_def demo_selected_simps boxScale_def)
  have "numberInput_onEdit (Some ''abc'') ''owner'' demo_selected =
          withSelectedBox (\<lambda>sc. \<lparr>vx = NaN, vy = NaN, vz = NaN\<rparr>) ?s0"
    by (simp add: numberInput_onEdit_def inHanziScene_def demo_selected_simps n Let_def)
  then have "boxScale (numberInput_onEdit (Some ''abc'') ''owner'' demo_selected) 0 =
          Some \<lparr>vx = NaN, vy = NaN, vz = NaN\<rparr>"
    using withSelectedBox_scale(1) [OF sel] by simp
  then show ?thesis
    using demo_selected_simps(7) by (simp add: p n Number_def strict_neq_NaN)
qed

subsection \<open>Level files\<close>

lemma basename_no_slash: "CHR ''/'' \<notin> set (basename f)"
  by (auto simp: basename_def dest: set_takeWhileD)

lemma saveLevel_path_directly: "directlyInLevels (saveLevel_path f)"
  by (simp add: directlyInLevels_def saveLevel_path_def basename_no_slash)

text \<open>
  C2. For the name \<open>../secret\<close>, \<open>saveLevel\<close> resolves the base name \<open>secret\<close> inside the
  levels directory; \<open>loadLevel\<close> resolves the name as given, to a path that leaves the
  directory.
\<close>

theorem loadLevel_path_not_sanitized:
  "basename ''../secret'' = ''secret'' \<and>
   saveLevel_path ''../secret'' = ''./public/levels/secret.json'' \<and>
   directlyInLevels (saveLevel_path ''../secret'') \<and>
   loadLevel_path ''../secret'' = ''./public/levels/../secret.json'' \<and>
   \<not> directlyInLevels (loadLevel_path ''../secret'')"
  by (simp add: basename_def saveLevel_path_def loadLevel_path_def directlyInLevels_def)

subsection \<open>Deleting\<close>

lemma destroy_frame:
  "heap (destroy i s) = heap s" "highlightBoxes (destroy i s) = highlightBoxes s"
  "spawnedHanzi (destroy i s) = spawnedHanzi s"
  "highlightedActor (destroy i s) = highlightedActor s"
  "currentScene (destroy i s) = currentScene s"
  "i \<notin> set (live (destroy i s))" "set (live (destroy i s)) \<subseteq> set (live s)"
  by (auto simp: destroy_def)

lemma destroy_live:
  "j \<in> set (live (destroy i s)) \<Longrightarrow>
   j \<noteq> i \<and> (case heap s j of None \<Rightarrow> True | Some a \<Rightarrow> parentId a \<noteq> Some i)"
  by (simp add: destroy_def)

lemma destroy_id:
  "\<forall>j \<in> set (live s). j \<noteq> i \<and> (case heap s j of None \<Rightarrow> True | Some a \<Rightarrow> parentId a \<noteq> Some i)
   \<Longrightarrow> destroy i s = s"
  by (simp add: destroy_def filter_id_conv)

lemma update_actor_id:
  "heap s i = map_option f (heap s i) \<Longrightarrow> update_actor i f s = s"
  by (simp add: update_actor_def)

lemma update_actor_frame:
  "highlightBoxes (update_actor i f s) = highlightBoxes s"
  "spawnedHanzi (update_actor i f s) = spawnedHanzi s"
  "live (update_actor i f s) = live s"
  "highlightedActor (update_actor i f s) = highlightedActor s"
  "currentScene (update_actor i f s) = currentScene s"
  by (simp_all add: update_actor_def)

lemma update_actor_parentId:
  "(\<And>a. parentId (f a) = parentId a) \<Longrightarrow>
   (case heap (update_actor i f s) j of None \<Rightarrow> True | Some a \<Rightarrow> parentId a \<noteq> Some k) =
   (case heap s j of None \<Rightarrow> True | Some a \<Rightarrow> parentId a \<noteq> Some k)"
  by (simp add: update_actor_def split: option.splits)

text \<open>The state that \<open>deleteItem\<close> leaves, given the box of the actor.\<close>

lemma deleteItem_Some:
  "map_of (highlightBoxes s) act = Some box \<Longrightarrow>
   deleteItem act s =
     Some (destroy box (destroy act
       ((update_actor box (\<lambda>a. a\<lparr>subscribed := False\<rparr>) s)
          \<lparr>spawnedHanzi := AList.delete box (spawnedHanzi s)\<rparr>)))"
  by (simp add: deleteItem_def Let_def update_actor_frame)

text \<open>
  C9. For an entity that was spawned (its box is recorded in \<open>highlightBoxes\<close>),
  \<open>deleteItem\<close> does not fail; afterwards the box is not subscribed to transform updates
  and has no entry in \<open>spawnedHanzi\<close>, and neither the visual model nor the box is in the
  scene. Deleting the same entity again does not fail and leaves the state as it is.
\<close>

theorem deleteItem_idempotent:
  assumes box: "map_of (highlightBoxes s) act = Some box"
  shows "\<exists>s1. deleteItem act s = Some s1 \<and>
           map_of (spawnedHanzi s1) box = None \<and>
           map_option subscribed (heap s1 box) \<noteq> Some True \<and>
           act \<notin> set (live s1) \<and> box \<notin> set (live s1) \<and>
           deleteItem act s1 = Some s1"
proof -
  let ?f = "\<lambda>a. a\<lparr>subscribed := False\<rparr>"
  let ?s0 = "(update_actor box ?f s)\<lparr>spawnedHanzi := AList.delete box (spawnedHanzi s)\<rparr>"
  let ?s1 = "destroy box (destroy act ?s0)"
  have del: "deleteItem act s = Some ?s1"
    using box by (rule deleteItem_Some)
  have hp: "heap ?s1 = heap (update_actor box ?f s)"
    by (simp add: destroy_frame)
  have sp: "spawnedHanzi ?s1 = AList.delete box (spawnedHanzi s)"
    by (simp add: destroy_frame)
  have hb: "highlightBoxes ?s1 = highlightBoxes s"
    by (simp add: destroy_frame update_actor_frame)
  have gone: "map_of (spawnedHanzi ?s1) box = None"
    by (simp add: sp AList.delete_conv')
  have hbx: "heap ?s1 box = map_option ?f (heap s box)"
    by (simp add: destroy_frame update_actor_def)
  have unsub: "map_option subscribed (heap ?s1 box) \<noteq> Some True"
    by (cases "heap s box") (simp_all add: hbx)
  have nb: "box \<notin> set (live ?s1)"
    by (rule destroy_frame)
  have na: "act \<notin> set (live ?s1)"
    using destroy_frame(6) [of act ?s0] destroy_frame(7) [of box "destroy act ?s0"]
    by blast
  have live1: "j \<noteq> act \<and> (case heap ?s1 j of None \<Rightarrow> True | Some a \<Rightarrow> parentId a \<noteq> Some act) \<and>
               j \<noteq> box \<and> (case heap ?s1 j of None \<Rightarrow> True | Some a \<Rightarrow> parentId a \<noteq> Some box)"
    if "j \<in> set (live ?s1)" for j
  proof -
    from destroy_live [OF that]
    have b: "j \<noteq> box \<and> (case heap (destroy act ?s0) j of None \<Rightarrow> True
                           | Some a \<Rightarrow> parentId a \<noteq> Some box)"
      by simp
    from that have "j \<in> set (live (destroy act ?s0))"
      using destroy_frame(7) [of box "destroy act ?s0"] by blast
    from destroy_live [OF this]
    have a: "j \<noteq> act \<and> (case heap ?s0 j of None \<Rightarrow> True | Some a \<Rightarrow> parentId a \<noteq> Some act)"
      by simp
    show ?thesis
      using a b by (simp add: destroy_frame)
  qed
  have u: "update_actor box ?f ?s1 = ?s1"
    by (rule update_actor_id) (cases "heap s box"; simp add: hbx)
  have d: "?s1\<lparr>spawnedHanzi := AList.delete box (spawnedHanzi ?s1)\<rparr> = ?s1"
    by (simp add: sp AList.delete_idem)
  have da: "destroy act ?s1 = ?s1"
    by (rule destroy_id) (use live1 in blast)
  have db: "destroy box ?s1 = ?s1"
    by (rule destroy_id) (use live1 in blast)
  have box1: "map_of (highlightBoxes ?s1) act = Some box"
    using box by (simp add: hb)
  have again: "deleteItem act ?s1 = Some ?s1"
    unfolding deleteItem_Some [OF box1] u
    using d da db by (simp only: sp destroy_frame(3))
  show ?thesis
    using del gone unsub na nb again by blast
qed

theorem deleteItem_idempotent_witness:
  "map_of (highlightBoxes demo_selected) 1 = Some 0 \<and>
   (\<exists>s1. deleteItem 1 demo_selected = Some s1 \<and>
         map_of (spawnedHanzi s1) 0 = None \<and>
         map_option subscribed (heap s1 0) \<noteq> Some True \<and>
         1 \<notin> set (live s1) \<and> 0 \<notin> set (live s1) \<and>
         deleteItem 1 s1 = Some s1)"
proof -
  have box: "map_of (highlightBoxes demo_selected) 1 = Some 0"
    by (simp add: demo_selected_simps)
  show ?thesis
    using deleteItem_idempotent [OF box] box by blast
qed

lemma deleteItem_frame:
  assumes "map_of (highlightBoxes s) act = Some box"
  shows "\<exists>s1. deleteItem act s = Some s1 \<and>
           highlightBoxes s1 = highlightBoxes s \<and>
           highlightedActor s1 = highlightedActor s \<and>
           currentScene s1 = currentScene s \<and>
           (\<forall>b. boxScale s1 b = boxScale s b) \<and>
           act \<notin> set (live s1) \<and> box \<notin> set (live s1)"
proof -
  let ?f = "\<lambda>a. a\<lparr>subscribed := False\<rparr>"
  let ?s0 = "(update_actor box ?f s)\<lparr>spawnedHanzi := AList.delete box (spawnedHanzi s)\<rparr>"
  let ?s1 = "destroy box (destroy act ?s0)"
  have del: "deleteItem act s = Some ?s1"
    using assms by (rule deleteItem_Some)
  have na: "act \<notin> set (live ?s1)"
    using destroy_frame(6) [of act ?s0] destroy_frame(7) [of box "destroy act ?s0"]
    by blast
  have nb: "box \<notin> set (live ?s1)"
    by (rule destroy_frame)
  have sc: "boxScale ?s1 b = boxScale s b" for b
    by (cases "b = box"; cases "heap s box")
       (simp_all add: boxScale_def destroy_frame update_actor_def)
  show ?thesis
    using del na nb sc by (simp add: destroy_frame update_actor_frame)
qed

text \<open>
  C10. When the selected entity is deleted from the control strip, \<open>highlightedActor\<close>
  still names its visual model and \<open>highlightBoxes\<close> still maps that to its box, though
  neither is in the scene any more. A following click on the increase button adds the
  scale step to the destroyed box, and a following click on \<open>Delete\<close> calls \<open>deleteItem\<close>
  on the destroyed entity.
\<close>

theorem delete_keeps_selection:
  assumes scene: "inHanziScene s"
    and sel: "highlightedActor s = Some act"
    and box: "map_of (highlightBoxes s) act = Some box"
    and sc: "boxScale s box = Some sc"
    and s1: "s1 = commonHanziMenuControlStrip_behavior Delete u s"
  shows "highlightedActor s1 = Some act \<and> highlightBoxes s1 = highlightBoxes s \<and>
         map_of (highlightBoxes s1) act = Some box \<and>
         act \<notin> set (live s1) \<and> box \<notin> set (live s1) \<and>
         boxScale (numberInput_onIncrease s1) box =
           Some \<lparr>vx = jsadd (vx sc) SCALE_STEP, vy = jsadd (vy sc) SCALE_STEP,
                 vz = jsadd (vz sc) SCALE_STEP\<rparr> \<and>
         deleteItem act s1 = Some (commonHanziMenuControlStrip_behavior Delete u' s1)"
proof -
  from deleteItem_frame [OF box]
  obtain t where t: "deleteItem act s = Some t"
    and hb: "highlightBoxes t = highlightBoxes s"
    and ha: "highlightedActor t = highlightedActor s"
    and cs: "currentScene t = currentScene s"
    and bs: "\<forall>b. boxScale t b = boxScale s b"
    and na: "act \<notin> set (live t)" and nb: "box \<notin> set (live t)"
    by blast
  have eq: "s1 = t"
    using s1 scene sel t by (simp add: commonHanziMenuControlStrip_behavior_def)
  have sel1: "highlightedActor s1 = Some act"
    by (simp add: eq ha sel)
  have box1: "map_of (highlightBoxes s1) act = Some box"
    by (simp add: eq hb box)
  have sc1: "boxScale s1 box = Some sc"
    using bs sc by (simp add: eq)
  have scene1: "inHanziScene s1"
    using scene by (simp add: inHanziScene_def eq cs)
  have inc: "boxScale (numberInput_onIncrease s1) box =
           Some \<lparr>vx = jsadd (vx sc) SCALE_STEP, vy = jsadd (vy sc) SCALE_STEP,
                 vz = jsadd (vz sc) SCALE_STEP\<rparr>"
    using scene1 withSelectedBox_scale(1) [OF sel1 box1 sc1]
    by (simp add: numberInput_onIncrease_def)
  from deleteItem_frame [OF box1]
  obtain t2 where t2: "deleteItem act s1 = Some t2"
    by blast
  have again: "deleteItem act s1 = Some (commonHanziMenuControlStrip_behavior Delete u' s1)"
    using scene1 sel1 t2 by (simp add: commonHanziMenuControlStrip_behavior_def)
  show ?thesis
    using sel1 box1 inc again na nb by (simp add: eq hb)
qed

theorem delete_keeps_selection_witness:
  "inHanziScene demo_selected \<and> highlightedActor demo_selected = Some 1 \<and>
   map_of (highlightBoxes demo_selected) 1 = Some 0 \<and>
   boxScale demo_selected 0 =
     Some \<lparr>vx = Num (8 / 10000), vy = Num (8 / 10000), vz = Num (8 / 10000)\<rparr> \<and>
   highlightedActor (commonHanziMenuControlStrip_behavior Delete ''guest'' demo_selected) =
     Some 1 \<and>
   0 \<notin> set (live (commonHanziMenuControlStrip_behavior Delete ''guest'' demo_selected)) \<and>
   boxScale (numberInput_onIncrease
      (commonHanziMenuControlStrip_behavior Delete ''guest'' demo_selected)) 0 =
     Some \<lparr>vx = Num (33 / 40000), vy = Num (33 / 40000), vz = Num (33 / 40000)\<rparr>"
proof -
  have scene: "inHanziScene demo_selected"
    by (simp add: inHanziScene_def demo_selected_simps)
  have sel: "highlightedActor demo_selected = Some 1"
    by (simp add: demo_selected_simps)
  have box: "map_of (highlightBoxes demo_selected) 1 = Some 0"
    by (simp add: demo_selected_simps)
  note sc = demo_selected_simps(7)
  have step: "jsadd (Num (1 / 1250)) SCALE_STEP = Num (33 / 40000)"
    by (simp add: jsadd_def SCALE_STEP_def)
  show ?thesis
    using delete_keeps_selection [OF scene sel box sc refl, of "''guest''"] scene sel box sc
    by (simp add: step)
qed

subsection \<open>The owner check\<close>

text \<open>
  C1 (amended). For a user whose identity is not the configured owner identity, a click
  on the home button and a click on a spawned entity are ignored: the state after the
  click, messages shown to users included, is the state before it.
\<close>

theorem non_owner_click_ignored:
  assumes "\<not> checkUserName u (OWNER_NAME s)"
  shows "home_onClick u s = s \<and> box_onClick act box u s = s"
  using assms by (simp add: home_onClick_def box_onClick_def)

theorem non_owner_click_ignored_witness:
  "\<not> checkUserName ''guest'' (OWNER_NAME demo_spawned) \<and>
   home_onClick ''guest'' demo_spawned = demo_spawned \<and>
   box_onClick 1 0 ''guest'' demo_spawned = demo_spawned"
proof -
  have g: "\<not> checkUserName ''guest'' (OWNER_NAME demo_spawned)"
    by (simp add: checkUserName_def demo_spawned_simps)
  show ?thesis
    using non_owner_click_ignored [OF g, of 1 0] g by simp
qed

text \<open>
  The control strip does not look at who clicked. In the example session a guest spawns
  an entity, and a guest clears the level again.
\<close>

theorem guest_spawn_counterexample:
  "\<not> checkUserName ''guest'' (OWNER_NAME demo_common) \<and>
   spawnedHanzi demo_common = [] \<and>
   spawnedHanzi (commonHanziMenuControlStrip_behavior (Spawn 0) ''guest'' demo_common) =
     [(0, ''A'')] \<and>
   spawnedHanzi (commonHanziMenuControlStrip_behavior (Clear True) ''guest'' demo_spawned) = []"
proof -
  have g: "\<not> checkUserName ''guest'' (OWNER_NAME demo_common)"
    by (simp add: checkUserName_def demo_common_simps)
  have sp: "spawnedHanzi (commonHanziMenuControlStrip_behavior (Spawn 0) ''guest'' demo_common) =
     [(0, ''A'')]"
    using demo_spawned_simps(5) by (simp add: demo_spawned_def)
  define s0 where "s0 = prompt ''guest'' ''Clear level?'' demo_spawned"
  have hb: "highlightBoxes s0 = [(1, 0)]" and sp0: "spawnedHanzi s0 = [(0, ''A'')]"
    by (simp_all add: s0_def prompt_def demo_spawned_simps)
  have b: "map_of (highlightBoxes s0) 1 = Some 0"
    by (simp add: hb)
  have "clearLevel s0 = clearLoop [1] s0"
    by (simp add: clearLevel_def hb)
  also have "\<dots> =
          destroy 0 (destroy 1
            ((update_actor 0 (\<lambda>a. a\<lparr>subscribed := False\<rparr>) s0)
               \<lparr>spawnedHanzi := AList.delete 0 (spawnedHanzi s0)\<rparr>))"
    unfolding clearLoop.simps deleteItem_Some [OF b] by simp
  finally have "spawnedHanzi (clearLevel s0) = []"
    by (simp add: destroy_frame sp0)
  then have cl: "spawnedHanzi
      (commonHanziMenuControlStrip_behavior (Clear True) ''guest'' demo_spawned) = []"
    by (simp add: commonHanziMenuControlStrip_behavior_def inHanziScene_def
          demo_spawned_simps s0_def clear_then_def)
  show ?thesis
    using g sp cl by (simp add: demo_common_entities)
qed

subsection \<open>Saving, clearing and loading a level\<close>

lemma update_fresh: "k \<notin> fst ` set al \<Longrightarrow> AList.update k v al = al @ [(k, v)]"
  by (induction al) auto

lemma levelOf_append: "levelOf h (sp @ sp') = levelOf h sp @ levelOf h sp'"
  by (simp add: levelOf_def)

lemma levelOf_cong:
  "\<forall>k \<in> fst ` set sp. h' k = h k \<Longrightarrow> levelOf h' sp = levelOf h sp"
  by (induction sp) (auto simp: levelOf_def)



text \<open>Spawning a character whose model is cached, at a given transform.\<close>

lemma spawnItem_cached:
  assumes pf: "prefabs s c = Some (Some p)" and dm: "dimensions s c = Some bb"
    and fr: "fresh_ids s"
  shows "currentLevel (spawnItem (Some c) (Some t) e s) = currentLevel s @ [(c, t)]"
    and "prefabs (spawnItem (Some c) (Some t) e s) = prefabs s"
    and "dimensions (spawnItem (Some c) (Some t) e s) = dimensions s"
    and "fresh_ids (spawnItem (Some c) (Some t) e s)"
proof -
  let ?box = "next_id s"
  let ?obj = "\<lparr>parentId = None, actor_transform = t,
               appearance_material = Some invisibleMaterial,
               subscribed = e, grabbable = e, clickable = e\<rparr>"
  have nk: "?box \<notin> fst ` set (spawnedHanzi s)"
    using fr by (auto simp: fresh_ids_def list_all_iff)
  have lg: "loadGltf c s = Some s"
    using pf by (simp add: loadGltf_def)
  have sp: "spawnedHanzi (spawnItem (Some c) (Some t) e s) = spawnedHanzi s @ [(?box, c)]"
    using pf dm lg nk
    by (simp add: spawnItem_def Let_def update_actor_def update_fresh)
  have nx: "next_id (spawnItem (Some c) (Some t) e s) = ?box + 2"
    using pf dm lg by (simp add: spawnItem_def Let_def update_actor_def)
  have hb: "heap (spawnItem (Some c) (Some t) e s) ?box = Some ?obj"
    using pf dm lg by (simp add: spawnItem_def Let_def update_actor_def)
  have ho: "heap (spawnItem (Some c) (Some t) e s) k = heap s k" if "k < ?box" for k
    using pf dm lg that by (simp add: spawnItem_def Let_def update_actor_def)
  have old: "levelOf (heap (spawnItem (Some c) (Some t) e s)) (spawnedHanzi s) =
             levelOf (heap s) (spawnedHanzi s)"
    using fr by (intro levelOf_cong) (auto simp: fresh_ids_def list_all_iff ho)
  show "currentLevel (spawnItem (Some c) (Some t) e s) = currentLevel s @ [(c, t)]"
    by (simp add: currentLevel_def sp levelOf_append old) (simp add: levelOf_def hb)
  show "prefabs (spawnItem (Some c) (Some t) e s) = prefabs s"
    using pf dm lg by (simp add: spawnItem_def Let_def update_actor_def)
  show "dimensions (spawnItem (Some c) (Some t) e s) = dimensions s"
    using pf dm lg by (simp add: spawnItem_def Let_def update_actor_def)
  show "fresh_ids (spawnItem (Some c) (Some t) e s)"
    using fr by (auto simp: fresh_ids_def list_all_iff sp nx)
qed

lemma spawn_level:
  assumes "\<forall>d \<in> set lv. (\<exists>p. prefabs s (fst d) = Some (Some p)) \<and> dimensions s (fst d) \<noteq> None"
    and "fresh_ids s"
  shows "currentLevel (foldl (\<lambda>s1 d. spawnItem (Some (fst d)) (Some (snd d)) e s1) s lv) =
           currentLevel s @ lv"
  using assms
proof (induction lv arbitrary: s)
  case Nil
  then show ?case by simp
next
  case (Cons d lv)
  from Cons.prems(1) obtain p bb where pf: "prefabs s (fst d) = Some (Some p)"
    and dm: "dimensions s (fst d) = Some bb"
    by auto
  note st = spawnItem_cached [OF pf dm Cons.prems(2), of "snd d" e]
  let ?s1 = "spawnItem (Some (fst d)) (Some (snd d)) e s"
  have "\<forall>d \<in> set lv. (\<exists>p. prefabs ?s1 (fst d) = Some (Some p)) \<and>
          dimensions ?s1 (fst d) \<noteq> None"
    using Cons.prems(1) by (simp add: st)
  from Cons.IH [OF this st(4)] show ?case
    by (simp add: st(1))
qed

text \<open>
  Each cached spawn runs from its one \<open>await\<close> to its end without a break, so the spawns
  that \<open>loadLevel\<close> starts end in some order of the file's entries. Whatever that order,
  the level that results has the same pairs, each as often.
\<close>

lemma spawn_level_any_order:
  assumes "\<forall>d \<in> set lv. (\<exists>p. prefabs s (fst d) = Some (Some p)) \<and> dimensions s (fst d) \<noteq> None"
    and "fresh_ids s"
    and "mset lv' = mset lv"
  shows "mset (currentLevel (foldl (\<lambda>s1 d. spawnItem (Some (fst d)) (Some (snd d)) e s1) s lv')) =
           mset (currentLevel s) + mset lv"
proof -
  have "set lv' = set lv"
    using assms(3) by (rule mset_eq_setD)
  with assms(1) have "\<forall>d \<in> set lv'. (\<exists>p. prefabs s (fst d) = Some (Some p)) \<and>
      dimensions s (fst d) \<noteq> None"
    by simp
  from spawn_level [OF this assms(2), of e] show ?thesis
    by (simp add: assms(3))
qed










text \<open>
  The numbers that survive JSON, and one that does not: a scale typed in as \<open>2 * 10^308\<close>
  is an infinity, which the file holds as \<open>null\<close>.
\<close>

lemma jsonNum_fixed: "(jsonNum n = n) = (n \<noteq> NaN \<and> n \<noteq> PosInf \<and> n \<noteq> NegInf)"
  by (cases n) simp_all

lemma scale_overflow:
  "jsmul (Number (Some (2 * 10 ^ 308))) HANZI_MODEL_SCALE = PosInf \<and> jsonNum PosInf = Null"
  by (simp add: Number_def doubleOverflow_def jsmul_def HANZI_MODEL_SCALE_def infinityOf_def)



subsection \<open>The tracking invariant\<close>

text \<open>The entity part of a state, and the invariant as a property of that part.\<close>

lemma entities_ok_cong:
  assumes "highlightBoxes s1 = highlightBoxes s" "spawnedHanzi s1 = spawnedHanzi s"
    and "prefabs s1 = prefabs s" "dimensions s1 = dimensions s" "next_id s1 = next_id s"
  shows "entities_ok s1 = entities_ok s"
  by (simp add: entities_ok_def tracked_ok_def fresh_ids_def assms)



lemma map_of_update_fresh:
  "k \<notin> fst ` set al \<Longrightarrow> k' \<in> fst ` set al \<Longrightarrow>
   map_of (AList.update k v al) k' = map_of al k'"
  by (auto simp: AList.update_conv')











lemma switchScene_entities_ok: "entities_ok (switchScene x s) = entities_ok s"
  by (rule entities_ok_cong) (simp_all add: switchScene_def Let_def)

lemma home_entities_ok: "entities_ok (home_onClick u s) = entities_ok s"
  by (simp add: home_onClick_def switchScene_entities_ok)


lemma putc_entities_ok: "entities_ok (putc c s) = entities_ok s"
  by (rule entities_ok_cong)
     (simp_all add: putc_def putc_switch_def updatePinyinInfoPanel_def playSound_def Let_def
        split: option.splits prod.splits)




subsection \<open>Entering the same dataset twice\<close>

lemma paged_radicals_memory:
  "radicalPageNum paged_radicals = None" "hanziPageNum paged_radicals = Some 1"
  "length (characters paged_radicals) = 3"
  by (simp_all add: paged_radicals_def paged_def paged_db_def mainMenu_behavior_def
        init_def switchScene_def refreshCommonHanziMenu_def updateCommonHanziMenu_def
        Let_def setPageNum_def getCharacters_def
        commonHanziMenuControlStrip_behavior_def inHanziScene_def prompt_def goto_then_def
        parseInt_def digitValue_def isWhiteSpace_def strict_neq_NaN totalPages_def
        pageSize_def)

text \<open>
  C6. The radicals are on show at page 2. The owner goes to the characters, returns to
  the main menu and enters the characters again, and then goes back to the radicals.
  The first switch remembers page 2 for the radicals; entering the characters a second
  time overwrites that with the characters' page 1, and the radicals come back on page 1.
\<close>

theorem reentry_overwrites_page_memory:
  "currentScene paged_radicals = sceneOf RadicalSet \<and> curPageNum paged_radicals = 2 \<and>
   remembered RadicalSet (switchTo CharacterSet ''owner'' paged_radicals) = Some 2 \<and>
   remembered RadicalSet
     (switchTo CharacterSet ''owner'' (switchTo CharacterSet ''owner'' paged_radicals)) =
     Some 1 \<and>
   currentScene
     (switchTo RadicalSet ''owner''
        (switchTo CharacterSet ''owner'' (switchTo CharacterSet ''owner'' paged_radicals))) =
     sceneOf RadicalSet \<and>
   curPageNum
     (switchTo RadicalSet ''owner''
        (switchTo CharacterSet ''owner'' (switchTo CharacterSet ''owner'' paged_radicals))) = 1"
proof -
  define s1 where "s1 = switchTo CharacterSet ''owner'' paged_radicals"
  define s2 where "s2 = switchTo CharacterSet ''owner'' s1"
  define s3 where "s3 = switchTo RadicalSet ''owner'' s2"
  have own0: "checkUserName ''owner'' (OWNER_NAME paged_radicals)"
    and ne0: "currentScene paged_radicals \<noteq> []"
    by (simp_all add: paged_radicals_simps checkUserName_def)
  note e1 = switchTo_enter [OF own0 ne0, where d = CharacterSet]
  have r1: "remembered RadicalSet s1 = Some 2"
    using e1(3) by (simp add: s1_def paged_radicals_simps)
  have c1: "curPageNum s1 = 1"
    using e1(5) by (simp add: s1_def paged_radicals_memory totalPages_def pageSize_def)
  have h1: "remembered CharacterSet s1 = Some 1"
    using mainMenu_enter(5) [OF home_onClick_owner(1) [OF own0 ne0], where d = CharacterSet]
      home_onClick_owner(5) [OF own0 ne0]
    by (simp add: s1_def switchTo_def paged_radicals_memory)
  have l1: "length (characters s1) = 3" "length (radicals s1) = 65"
    using e1(2) [where d' = CharacterSet] e1(2) [where d' = RadicalSet]
    by (simp_all add: s1_def paged_radicals_memory paged_radicals_simps)
  have own1: "checkUserName ''owner'' (OWNER_NAME s1)"
    and ne1: "currentScene s1 \<noteq> []"
    using e1(1) e1(4) own0 by (simp_all add: s1_def)
  note e2 = switchTo_enter [OF own1 ne1, where d = CharacterSet]
  have r2: "remembered RadicalSet s2 = Some 1"
    using e2(3) by (simp add: s2_def c1)
  have l2: "length (radicals s2) = 65"
    using e2(2) [where d' = RadicalSet] by (simp add: s2_def l1)
  have own2: "checkUserName ''owner'' (OWNER_NAME s2)"
    and ne2: "currentScene s2 \<noteq> []"
    using e2(1) e2(4) own1 by (simp_all add: s2_def)
  note e3 = switchTo_enter [OF own2 ne2, where d = RadicalSet]
  have c3: "curPageNum s3 = 1"
    using e3(5) r2 l2 by (simp add: s3_def totalPages_def pageSize_def)
  have sc3: "currentScene s3 = sceneOf RadicalSet"
    using e3(1) by (simp add: s3_def)
  have "currentScene paged_radicals = sceneOf RadicalSet \<and> curPageNum paged_radicals = 2 \<and>
      remembered RadicalSet s1 = Some 2 \<and> remembered RadicalSet s2 = Some 1 \<and>
      currentScene s3 = sceneOf RadicalSet \<and> curPageNum s3 = 1"
    using r1 r2 c3 sc3 by (simp add: paged_radicals_simps)
  then show ?thesis
    unfolding s3_def s2_def s1_def .
qed

subsection \<open>The round trip in the example session\<close>


text \<open>
  The same host does not serve a name with a query mark in it: the URL of the level
  \<open>a?b\<close> names the file \<open>levels/a\<close>.
\<close>

lemma staticHost_query:
  "staticHost fs (loadLevel_url ''a?b'') = fs ''./public/levels/a''"
  by (simp add: staticHost_def loadLevel_url_def)












end
